theory Spec2Isabelle
  imports Complex_Main "HOL-Library.Sublist"
begin

section \<open>The WWT Constellations API client\<close>

text \<open>
  A shallow embedding of \<^verbatim>\<open>wwt_api_client.constellations\<close>: the client configuration
  (\<^verbatim>\<open>__init__.py\<close>), the null-stripping normaliser (\<^verbatim>\<open>data.py\<close>), the session's
  send primitive and the handle-scoped operations (\<^verbatim>\<open>handles.py\<close>).
  Python strings are \<open>string\<close>, Python's unbounded integers are \<open>int\<close>, a raised
  exception is the left injection of a sum.
\<close>

subsection \<open>Exceptions\<close>

text \<open>
  The exception classes the code raises, each with the fixed part of its message.
  \<open>Exception\<close> is the plain \<^verbatim>\<open>raise Exception(...)\<close> of \<^verbatim>\<open>new_default\<close> and of
  \<^verbatim>\<open>add_scene_from_place\<close>; \<open>HTTPError\<close> is the \<^verbatim>\<open>RequestException\<close> that
  \<^verbatim>\<open>raise_for_status\<close> raises and \<^verbatim>\<open>_send_and_check\<close> re-raises.
\<close>

datatype error =
    Exception string
  | ValueError string
  | TypeError string
  | KeyError string
  | AttributeError string
  | JSONDecodeError
  | OverflowError string
  | HTTPError string
  | SchemaError string

subsection \<open>String helpers\<close>

text \<open>\<^verbatim>\<open>s.endswith(suffix)\<close>\<close>

definition endswith :: "string \<Rightarrow> string \<Rightarrow> bool" where
  "endswith s suf = (length suf \<le> length s \<and> drop (length s - length suf) s = suf)"

text \<open>\<^verbatim>\<open>sub in s\<close> on strings: \<open>sub\<close> occurs in \<open>s\<close> as a contiguous substring.\<close>

fun startswith :: "string \<Rightarrow> string \<Rightarrow> bool" where
  "startswith s [] = True"
| "startswith [] (c # cs) = False"
| "startswith (d # ds) (c # cs) = (d = c \<and> startswith ds cs)"

fun str_contains :: "string \<Rightarrow> string \<Rightarrow> bool" where
  "str_contains sub [] = (sub = [])"
| "str_contains sub (c # cs) = (startswith (c # cs) sub \<or> str_contains sub cs)"

subsection \<open>Client configuration (\<^verbatim>\<open>ClientConfig\<close>)\<close>

record ClientConfig =
  id_provider_url :: string
  client_id :: string
  api_url :: string

text \<open>\<^verbatim>\<open>os.environ\<close>: the variables that are set, with their values.\<close>

type_synonym environ = "string \<rightharpoonup> string"

definition new_default :: "environ \<Rightarrow> error + ClientConfig" where
  "new_default environ =
     (let cid = (case environ ''WWT_API_CLIENT_ID'' of None \<Rightarrow> ''cli-tool'' | Some c \<Rightarrow> c)
      in case environ ''NUXT_PUBLIC_API_URL'' of
           None \<Rightarrow> Inl (Exception
             ''until WWT Constellations is released, you must set the environment variable NUXT_PUBLIC_API_URL'')
         | Some url \<Rightarrow>
             (let default_id_base =
                    (if str_contains ''localhost'' url then Some ''http://localhost:8080/''
                     else if str_contains ''wwtelescope.dev'' url
                          then Some ''https://wwtelescope.dev/auth/''
                          else None);
                  url' = (if endswith url ''/'' then butlast url else url);
                  id_base =
                    (case environ ''NUXT_PUBLIC_KEYCLOAK_URL'' of
                       Some v \<Rightarrow> Some v
                     | None \<Rightarrow>
                         (case environ ''KEYCLOAK_URL'' of
                            Some v \<Rightarrow> Some v
                          | None \<Rightarrow> default_id_base))
              in case id_base of
                   None \<Rightarrow> Inl (Exception
                     ''unable to infer the WWT Constellations Keycloak URL; set the environment variable NUXT_PUBLIC_KEYCLOAK_URL'')
                 | Some id_base0 \<Rightarrow>
                     (let id_base' = (if endswith id_base0 ''/'' then id_base0 else id_base0 @ ''/'')
                      in Inr \<lparr>id_provider_url = id_base' @ ''realms/constellations'',
                              client_id = cid,
                              api_url = url'\<rparr>)))"

definition new_dev :: ClientConfig where
  "new_dev =
     \<lparr>id_provider_url = ''https://wwtelescope.dev/auth/realms/constellations'',
      client_id = ''cli-tool'',
      api_url = ''https://api.wwtelescope.dev/''\<rparr>"

text \<open>
  The spec's \<^verbatim>\<open>ConfigError\<close> is what \<^verbatim>\<open>new_default\<close> raises when it cannot resolve
  a URL: a plain \<^verbatim>\<open>Exception\<close>.
\<close>

fun is_ConfigError :: "error + 'a \<Rightarrow> bool" where
  "is_ConfigError (Inl (Exception m)) = True"
| "is_ConfigError r = False"

subsection \<open>JSON values and dictionaries\<close>

text \<open>
  What \<^verbatim>\<open>to_dict()\<close> produces and \<^verbatim>\<open>resp.json()\<close> returns. A Python \<^verbatim>\<open>dict\<close> is an
  association list in insertion order; a well-formed one binds each key once
  (\<open>distinct (map fst d)\<close>). \<open>JNull\<close> is \<^verbatim>\<open>None\<close>. A finite float is the real number it
  denotes.
\<close>

datatype json =
    JNull
  | JBool bool
  | JInt int
  | JFloat real
  | JStr string
  | JList "json list"
  | JDict "(string \<times> json) list"

type_synonym dict = "(string \<times> json) list"

text \<open>\<^verbatim>\<open>del d[key]\<close>\<close>

definition dict_del :: "string \<Rightarrow> dict \<Rightarrow> dict" where
  "dict_del key d = filter (\<lambda>kv. fst kv \<noteq> key) d"

subsection \<open>The null-stripping normaliser (\<^verbatim>\<open>_strip_nulls_in_place\<close>)\<close>

text \<open>
  The first loop visits the items of \<open>d\<close>: a value that is a dictionary is stripped
  recursively (in place), a value that is \<^verbatim>\<open>None\<close> has its key recorded; any other value,
  a list included, is left alone. The second loop deletes the recorded keys. The Python
  function mutates \<open>d\<close> and returns that same object; here the dictionary after the call is
  the value returned.
\<close>

fun strip_nulls_in_place :: "dict \<Rightarrow> dict" where
  "strip_nulls_in_place d =
     (let d1 = map (\<lambda>(key, val).
                 (key, case val of JDict sub \<Rightarrow> JDict (strip_nulls_in_place sub) | _ \<Rightarrow> val)) d;
          keys_to_remove = map fst (filter (\<lambda>(key, val). val = JNull) d)
      in fold dict_del keys_to_remove d1)"

declare strip_nulls_in_place.simps [simp del]

text \<open>
  No key is bound to \<^verbatim>\<open>None\<close> at any depth of dictionary nesting; lists are not entered.
\<close>

fun no_nulls :: "json \<Rightarrow> bool" where
  "no_nulls (JDict d) = list_all (\<lambda>kv. snd kv \<noteq> JNull \<and> no_nulls (snd kv)) d"
| "no_nulls v = True"

text \<open>The effect of the first loop's body on one value.\<close>

definition strip_val :: "json \<Rightarrow> json" where
  "strip_val val = (case val of JDict sub \<Rightarrow> JDict (strip_nulls_in_place sub) | _ \<Rightarrow> val)"

subsection \<open>The normaliser on a store\<close>

text \<open>
  The same function with the mutation written out. A dictionary object lives at an
  address of the store; a value is \<^verbatim>\<open>None\<close>, an atom, a list of values, or a reference to a
  dictionary object. \<^verbatim>\<open>_strip_nulls_in_place(d)\<close> takes the reference \<open>a\<close> of \<open>d\<close>, updates the
  store and returns \<open>a\<close> again, so the result here is the new store. The first loop runs
  over the items of \<open>d\<close> and calls the function on every value that is a dictionary; the
  second loop deletes the recorded keys from \<open>d\<close> as it then is. The first argument bounds
  the depth of the recursion: \<open>None\<close> is Python's \<^verbatim>\<open>RecursionError\<close> (a dictionary that
  contains itself), or a dangling reference.
\<close>

datatype pyobj =
    ONone
  | OBool bool
  | OInt int
  | OFloat real
  | OStr string
  | OList "pyobj list"
  | ORef nat

type_synonym store = "nat \<rightharpoonup> (string \<times> pyobj) list"

definition items_del :: "string \<Rightarrow> (string \<times> pyobj) list \<Rightarrow> (string \<times> pyobj) list" where
  "items_del key d = filter (\<lambda>kv. fst kv \<noteq> key) d"

fun visit_items :: "(store \<Rightarrow> nat \<Rightarrow> store option) \<Rightarrow> store \<Rightarrow> (string \<times> pyobj) list \<Rightarrow> store option" where
  "visit_items f s [] = Some s"
| "visit_items f s ((key, val) # rest) =
     (case val of
        ORef b \<Rightarrow> (case f s b of None \<Rightarrow> None | Some s' \<Rightarrow> visit_items f s' rest)
      | _ \<Rightarrow> visit_items f s rest)"

fun strip_nulls_store :: "nat \<Rightarrow> store \<Rightarrow> nat \<Rightarrow> store option" where
  "strip_nulls_store 0 s a = None"
| "strip_nulls_store (Suc n) s a =
     (case s a of
        None \<Rightarrow> None
      | Some d \<Rightarrow>
          (case visit_items (strip_nulls_store n) s d of
             None \<Rightarrow> None
           | Some s1 \<Rightarrow>
               (case s1 a of
                  None \<Rightarrow> None
                | Some d1 \<Rightarrow>
                    Some (s1(a \<mapsto> fold items_del (map fst (filter (\<lambda>(key, val). val = ONone) d)) d1)))))"

text \<open>
  \<open>repr s v j F\<close>: in the store \<open>s\<close> the value \<open>v\<close> is a tree that reads as the JSON value
  \<open>j\<close>, and \<open>F\<close> are the addresses of its dictionary objects, each reached along one path
  only (no sharing, no cycle).
\<close>

inductive repr :: "store \<Rightarrow> pyobj \<Rightarrow> json \<Rightarrow> nat set \<Rightarrow> bool"
  and repr_list :: "store \<Rightarrow> pyobj list \<Rightarrow> json list \<Rightarrow> nat set \<Rightarrow> bool"
  and repr_items :: "store \<Rightarrow> (string \<times> pyobj) list \<Rightarrow> dict \<Rightarrow> nat set \<Rightarrow> bool"
where
  repr_None: "repr s ONone JNull {}"
| repr_Bool: "repr s (OBool b) (JBool b) {}"
| repr_Int: "repr s (OInt i) (JInt i) {}"
| repr_Float: "repr s (OFloat x) (JFloat x) {}"
| repr_Str: "repr s (OStr t) (JStr t) {}"
| repr_List: "repr_list s vs js F \<Longrightarrow> repr s (OList vs) (JList js) F"
| repr_Dict: "s a = Some items \<Longrightarrow> repr_items s items d F \<Longrightarrow> a \<notin> F \<Longrightarrow>
     repr s (ORef a) (JDict d) (insert a F)"
| repr_list_Nil: "repr_list s [] [] {}"
| repr_list_Cons: "repr s v j F \<Longrightarrow> repr_list s vs js G \<Longrightarrow> F \<inter> G = {} \<Longrightarrow>
     repr_list s (v # vs) (j # js) (F \<union> G)"
| repr_items_Nil: "repr_items s [] [] {}"
| repr_items_Cons: "repr s v j F \<Longrightarrow> repr_items s items d G \<Longrightarrow> F \<inter> G = {} \<Longrightarrow>
     repr_items s ((k, v) # items) ((k, j) # d) (F \<union> G)"

code_pred (modes: i \<Rightarrow> i \<Rightarrow> o \<Rightarrow> o \<Rightarrow> bool) repr .

text \<open>The effect of the first loop's body on one value of the store.\<close>

definition visit_val :: "nat \<Rightarrow> store \<Rightarrow> pyobj \<Rightarrow> store option" where
  "visit_val n s v = (case v of ORef b \<Rightarrow> strip_nulls_store n s b | _ \<Rightarrow> Some s)"

text \<open>
  A store with three dictionary objects:
  \<^verbatim>\<open>{"a": None, "b": {"c": None, "d": 1}, "l": [{"x": None}, None]}\<close> at address 0.
\<close>

definition demo_store :: store where
  "demo_store =
     [0 \<mapsto> [(''a'', ONone), (''b'', ORef 1), (''l'', OList [ORef 2, ONone])],
      1 \<mapsto> [(''c'', ONone), (''d'', OInt 1)],
      2 \<mapsto> [(''x'', ONone)]]"

subsection \<open>Decimal rendering and parsing of integers\<close>

text \<open>\<^verbatim>\<open>str(n)\<close> for an integer, as the f-string of \<^verbatim>\<open>raise_for_status\<close> renders the status.\<close>

fun str_nat :: "nat \<Rightarrow> string" where
  "str_nat n = (if n < 10 then [''0123456789'' ! n]
                else str_nat (n div 10) @ [''0123456789'' ! (n mod 10)])"

declare str_nat.simps [simp del]

definition str_int :: "int \<Rightarrow> string" where
  "str_int i = (if i < 0 then ''-'' @ str_nat (nat (- i)) else str_nat (nat i))"

text \<open>
  \<^verbatim>\<open>int(s)\<close> for a string, in base ten, as CPython 3.11 computes it. A character of a
  string is a code point below 256. Surrounding whitespace is dropped, a sign may come
  first (with no whitespace after it), and single underscores may separate digits.
  \<open>None\<close> is \<^verbatim>\<open>ValueError\<close>.

  The whitespace that \<^verbatim>\<open>int()\<close> skips is the six ASCII characters of C's \<^verbatim>\<open>isspace\<close> (tab,
  line feed, vertical tab, form feed, carriage return, space) and, among the code points
  from 128 to 255, the two that Unicode counts as whitespace: U+0085 and U+00A0. The
  separators U+001C to U+001F are not skipped, and no code point from 128 to 255 is a
  decimal digit.
\<close>

definition is_space :: "char \<Rightarrow> bool" where
  "is_space c = (c \<in> set [CHR 0x09, CHR 0x0A, CHR 0x0B, CHR 0x0C, CHR 0x0D, CHR 0x20,
                          CHR 0x85, CHR 0xA0])"

definition str_strip :: "string \<Rightarrow> string" where
  "str_strip s = rev (dropWhile is_space (rev (dropWhile is_space s)))"

definition digit_of :: "char \<Rightarrow> nat option" where
  "digit_of c = map_of [(CHR ''0'', 0), (CHR ''1'', 1), (CHR ''2'', 2), (CHR ''3'', 3),
       (CHR ''4'', 4), (CHR ''5'', 5), (CHR ''6'', 6), (CHR ''7'', 7), (CHR ''8'', 8),
       (CHR ''9'', 9)] c"

fun digits_val :: "nat \<Rightarrow> string \<Rightarrow> nat option" where
  "digits_val acc [] = Some acc"
| "digits_val acc [c] =
     (case digit_of c of None \<Rightarrow> None | Some d \<Rightarrow> Some (10 * acc + d))"
| "digits_val acc (c # c' # cs) =
     (if c = CHR ''_''
      then (case digit_of c' of None \<Rightarrow> None | Some d \<Rightarrow> digits_val (10 * acc + d) cs)
      else (case digit_of c of None \<Rightarrow> None | Some d \<Rightarrow> digits_val (10 * acc + d) (c' # cs)))"

text \<open>
  \<^verbatim>\<open>sys.get_int_max_str_digits()\<close>, at its default: CPython from 3.11 on refuses to convert
  a string with more digits (leading zeros counted, sign and underscores not).
\<close>

definition int_max_str_digits :: nat where
  "int_max_str_digits = 4300"

definition nat_of_str :: "string \<Rightarrow> nat option" where
  "nat_of_str s =
     (if length (filter (\<lambda>c. digit_of c \<noteq> None) s) > int_max_str_digits then None
      else (case s of [] \<Rightarrow> None
            | c # cs \<Rightarrow> (case digit_of c of None \<Rightarrow> None | Some d \<Rightarrow> digits_val d cs)))"

definition int_of_str :: "string \<Rightarrow> int option" where
  "int_of_str s =
     (case str_strip s of
        [] \<Rightarrow> None
      | c # cs \<Rightarrow>
          if c = CHR ''-'' then map_option (\<lambda>n. - int n) (nat_of_str cs)
          else if c = CHR ''+'' then map_option int (nat_of_str cs)
          else map_option int (nat_of_str (c # cs)))"

subsection \<open>Python values received as page arguments\<close>

text \<open>
  The page arguments are annotated \<^verbatim>\<open>int\<close>, but nothing checks the annotation: the
  operations pass whatever they receive to \<^verbatim>\<open>int()\<close>. The values here are those of the
  built-in types \<^verbatim>\<open>NoneType\<close>, \<^verbatim>\<open>bool\<close>, \<^verbatim>\<open>int\<close>, \<^verbatim>\<open>float\<close> and \<^verbatim>\<open>str\<close>. \<open>PyFloat\<close> is a
  finite float (the real number it denotes), \<open>PyInf\<close> an infinity of either sign.
\<close>

datatype pyval =
    PyNone
  | PyBool bool
  | PyInt int
  | PyFloat real
  | PyInf
  | PyNaN
  | PyStr string

text \<open>\<^verbatim>\<open>int(v)\<close>: a float is truncated towards zero.\<close>

fun py_int :: "pyval \<Rightarrow> error + int" where
  "py_int PyNone = Inl (TypeError ''int() argument must be a string, a bytes-like object or a real number'')"
| "py_int (PyBool b) = Inr (if b then 1 else 0)"
| "py_int (PyInt i) = Inr i"
| "py_int (PyFloat x) = Inr (if 0 \<le> x then \<lfloor>x\<rfloor> else \<lceil>x\<rceil>)"
| "py_int PyInf = Inl (OverflowError ''cannot convert float infinity to integer'')"
| "py_int PyNaN = Inl (ValueError ''cannot convert float NaN to integer'')"
| "py_int (PyStr s) =
     (case int_of_str s of
        None \<Rightarrow> Inl (ValueError ''invalid literal for int() with base 10'')
      | Some i \<Rightarrow> Inr i)"

subsection \<open>The model layer (\<^verbatim>\<open>data.py\<close>) and the request types of \<^verbatim>\<open>handles.py\<close>\<close>

text \<open>
  Each dataclass is a record with its fields in the order of the source; a field name
  carries the initials of its class. \<^verbatim>\<open>to_dict()\<close> lists the fields in that order under
  their wire names, a nested dataclass as a nested dictionary, an absent optional as
  \<^verbatim>\<open>None\<close>.
\<close>

record HandleInfo =
  hi_handle :: string
  hi_display_name :: string

record HandlePermissions =
  hp_handle :: string
  hp_view_dashboard :: bool

record HandleUpdate =
  hu_display_name :: "string option"

record HandleImageStats =
  his_count :: int

record HandleSceneStats =
  hss_count :: int
  hss_impressions :: int
  hss_likes :: int

record HandleStats =
  hs_handle :: string
  hs_images :: HandleImageStats
  hs_scenes :: HandleSceneStats

record ImageWwt =
  wwt_base_degrees_per_tile :: real
  wwt_bottoms_up :: bool
  wwt_center_x :: real
  wwt_center_y :: real
  wwt_file_type :: string
  wwt_offset_x :: real
  wwt_offset_y :: real
  wwt_projection :: string
  wwt_quad_tree_map :: string
  wwt_rotation :: real
  wwt_tile_levels :: int
  wwt_width_factor :: int
  wwt_thumbnail_url :: string

record ImageStorage =
  st_legacy_url_template :: "string option"

record ImageSummary =
  sm_id :: string
  sm_handle_id :: string
  sm_creation_date :: string
  sm_note :: string
  sm_storage :: ImageStorage

record ScenePlace =
  sp_ra_rad :: real
  sp_dec_rad :: real
  sp_roll_rad :: real
  sp_roi_height_deg :: real
  sp_roi_aspect_ratio :: real

record SceneImageLayer =
  sl_image_id :: string
  sl_opacity :: real

record SceneContent =
  sc_image_layers :: "SceneImageLayer list option"

record SceneInfo =
  si_id :: string
  si_creation_date :: string
  si_impressions :: int
  si_likes :: int

record FindImagesByLegacyRequest =
  fr_wwt_legacy_url :: string

record FindImagesByLegacyResponse =
  fp_error :: bool
  fp_results :: "ImageSummary list"

record AddImageRequest =
  air_wwt :: ImageWwt
  air_storage :: ImageStorage
  air_note :: string

record AddImageResponse =
  aip_id :: string
  aip_rel_url :: string

record AddSceneRequest =
  asr_place :: ScenePlace
  asr_content :: SceneContent
  asr_outgoing_url :: "string option"
  asr_text :: string

record AddSceneResponse =
  asp_id :: string
  asp_rel_url :: string

record SceneInfoResponse =
  sir_total_count :: int
  sir_results :: "SceneInfo list"

text \<open>
  Modelled from the spec: \<^verbatim>\<open>TimelineResponse\<close> is imported by \<^verbatim>\<open>handles.py\<close> from the package
  but declared in none of the sources. \<^verbatim>\<open>get_timeline\<close> reads its \<^verbatim>\<open>results\<close> field, a list of
  hydrated scenes, whose type is left open here.
\<close>

record 's TimelineResponse =
  tr_results :: "'s list"

definition opt_str :: "string option \<Rightarrow> json" where
  "opt_str v = (case v of None \<Rightarrow> JNull | Some s \<Rightarrow> JStr s)"

definition HandleUpdate_to_dict :: "HandleUpdate \<Rightarrow> dict" where
  "HandleUpdate_to_dict u = [(''display_name'', opt_str (hu_display_name u))]"

definition ImageWwt_to_dict :: "ImageWwt \<Rightarrow> dict" where
  "ImageWwt_to_dict x =
     [(''base_degrees_per_tile'', JFloat (wwt_base_degrees_per_tile x)),
      (''bottoms_up'', JBool (wwt_bottoms_up x)),
      (''center_x'', JFloat (wwt_center_x x)),
      (''center_y'', JFloat (wwt_center_y x)),
      (''file_type'', JStr (wwt_file_type x)),
      (''offset_x'', JFloat (wwt_offset_x x)),
      (''offset_y'', JFloat (wwt_offset_y x)),
      (''projection'', JStr (wwt_projection x)),
      (''quad_tree_map'', JStr (wwt_quad_tree_map x)),
      (''rotation'', JFloat (wwt_rotation x)),
      (''tile_levels'', JInt (wwt_tile_levels x)),
      (''width_factor'', JInt (wwt_width_factor x)),
      (''thumbnail_url'', JStr (wwt_thumbnail_url x))]"

definition ImageStorage_to_dict :: "ImageStorage \<Rightarrow> dict" where
  "ImageStorage_to_dict x = [(''legacy_url_template'', opt_str (st_legacy_url_template x))]"

definition AddImageRequest_to_dict :: "AddImageRequest \<Rightarrow> dict" where
  "AddImageRequest_to_dict x =
     [(''wwt'', JDict (ImageWwt_to_dict (air_wwt x))),
      (''storage'', JDict (ImageStorage_to_dict (air_storage x))),
      (''note'', JStr (air_note x))]"

definition ScenePlace_to_dict :: "ScenePlace \<Rightarrow> dict" where
  "ScenePlace_to_dict x =
     [(''ra_rad'', JFloat (sp_ra_rad x)),
      (''dec_rad'', JFloat (sp_dec_rad x)),
      (''roll_rad'', JFloat (sp_roll_rad x)),
      (''roi_height_deg'', JFloat (sp_roi_height_deg x)),
      (''roi_aspect_ratio'', JFloat (sp_roi_aspect_ratio x))]"

definition SceneImageLayer_to_dict :: "SceneImageLayer \<Rightarrow> dict" where
  "SceneImageLayer_to_dict x =
     [(''image_id'', JStr (sl_image_id x)), (''opacity'', JFloat (sl_opacity x))]"

definition SceneContent_to_dict :: "SceneContent \<Rightarrow> dict" where
  "SceneContent_to_dict x =
     [(''image_layers'',
       (case sc_image_layers x of
          None \<Rightarrow> JNull
        | Some ls \<Rightarrow> JList (map (\<lambda>l. JDict (SceneImageLayer_to_dict l)) ls)))]"

definition AddSceneRequest_to_dict :: "AddSceneRequest \<Rightarrow> dict" where
  "AddSceneRequest_to_dict x =
     [(''place'', JDict (ScenePlace_to_dict (asr_place x))),
      (''content'', JDict (SceneContent_to_dict (asr_content x))),
      (''outgoing_url'', opt_str (asr_outgoing_url x)),
      (''text'', JStr (asr_text x))]"

definition FindImagesByLegacyRequest_to_dict :: "FindImagesByLegacyRequest \<Rightarrow> dict" where
  "FindImagesByLegacyRequest_to_dict x = [(''wwt_legacy_url'', JStr (fr_wwt_legacy_url x))]"

subsection \<open>The HTTP exchange\<close>

text \<open>
  What \<^verbatim>\<open>_send_and_check\<close> hands to the token client's \<^verbatim>\<open>send_request\<close>: the URL, and the
  keyword arguments \<^verbatim>\<open>http_method\<close>, \<^verbatim>\<open>json\<close> and \<^verbatim>\<open>params\<close> when the caller gives them,
  with \<^verbatim>\<open>new_token=True\<close> and the scopes.
\<close>

record http_request =
  req_url :: string
  req_new_token :: bool
  req_scopes :: "string list"
  req_http_method :: "string option"
  req_json :: "json option"
  req_params :: "(string \<times> int) list option"

text \<open>
  A \<^verbatim>\<open>requests.Response\<close>: \<^verbatim>\<open>status_code\<close>, \<^verbatim>\<open>reason\<close>, \<^verbatim>\<open>url\<close>, \<^verbatim>\<open>text\<close>, and what
  \<^verbatim>\<open>json()\<close> returns (\<open>None\<close> when the body is not JSON and \<^verbatim>\<open>json()\<close> raises).
\<close>

record http_response =
  resp_status_code :: int
  resp_reason :: string
  resp_url :: string
  resp_text :: string
  resp_json :: "json option"

text \<open>
  \<^verbatim>\<open>Response.raise_for_status()\<close> of the \<^verbatim>\<open>requests\<close> library: it raises for a status
  from 400 to 599 and for no other; the result is the message of the \<^verbatim>\<open>HTTPError\<close>.
\<close>

definition raise_for_status :: "http_response \<Rightarrow> string option" where
  "raise_for_status resp =
     (if 400 \<le> resp_status_code resp \<and> resp_status_code resp < 500
      then Some (str_int (resp_status_code resp) @ '' Client Error: '' @ resp_reason resp
                 @ '' for url: '' @ resp_url resp)
      else if 500 \<le> resp_status_code resp \<and> resp_status_code resp < 600
      then Some (str_int (resp_status_code resp) @ '' Server Error: '' @ resp_reason resp
                 @ '' for url: '' @ resp_url resp)
      else None)"

text \<open>
  The world outside the process: the state of the token client and the servers, and the
  requests issued so far. A network call is an entry of \<open>sent\<close>.
\<close>

record 'w world =
  backend :: 'w
  sent :: "http_request list"

text \<open>
  \<^verbatim>\<open>CxClient\<close>: its configuration and its token client, whose \<^verbatim>\<open>send_request\<close> is any
  function from the outside state and a request to a response and a new state.
\<close>

record 'w CxClient =
  config :: ClientConfig
  oidcc_send_request :: "'w \<Rightarrow> http_request \<Rightarrow> http_response \<times> 'w"

definition CxClient_init ::
  "environ \<Rightarrow> ClientConfig option \<Rightarrow> ('w \<Rightarrow> http_request \<Rightarrow> http_response \<times> 'w)
     \<Rightarrow> error + 'w CxClient" where
  "CxClient_init environ config_arg oidcc =
     (case config_arg of
        Some c \<Rightarrow> Inr \<lparr>config = c, oidcc_send_request = oidcc\<rparr>
      | None \<Rightarrow>
          (case new_default environ of
             Inl e \<Rightarrow> Inl e
           | Inr c \<Rightarrow> Inr \<lparr>config = c, oidcc_send_request = oidcc\<rparr>))"

definition request ::
  "'w CxClient \<Rightarrow> string \<Rightarrow> string option \<Rightarrow> json option \<Rightarrow> (string \<times> int) list option
     \<Rightarrow> http_request" where
  "request client rel_url http_method json_arg params =
     \<lparr>req_url = api_url (config client) @ rel_url,
      req_new_token = True,
      req_scopes = [''profile'', ''offline_access''],
      req_http_method = http_method,
      req_json = json_arg,
      req_params = params\<rparr>"

definition send_and_check ::
  "'w CxClient \<Rightarrow> string \<Rightarrow> string option \<Rightarrow> json option \<Rightarrow> (string \<times> int) list option
     \<Rightarrow> 'w world \<Rightarrow> (error + http_response) \<times> 'w world" where
  "send_and_check client rel_url http_method json_arg params w =
     (let req = request client rel_url http_method json_arg params;
          (resp, b) = oidcc_send_request client (backend w) req;
          w' = \<lparr>backend = b, sent = sent w @ [req]\<rparr>
      in case raise_for_status resp of
           Some e \<Rightarrow> (Inl (HTTPError (e @ '': '' @ resp_text resp)), w')
         | None \<Rightarrow> (Inr resp, w'))"

definition find_images_by_wwt_url ::
  "(json \<Rightarrow> error + FindImagesByLegacyResponse) \<Rightarrow> 'w CxClient \<Rightarrow> string \<Rightarrow> 'w world
     \<Rightarrow> (error + ImageSummary list) \<times> 'w world" where
  "find_images_by_wwt_url load client wwt_url w =
     (let req = \<lparr>fr_wwt_legacy_url = wwt_url\<rparr>
      in case send_and_check client ''/images/find-by-legacy-url'' None
                (Some (JDict (strip_nulls_in_place (FindImagesByLegacyRequest_to_dict req)))) None w of
           (Inl e, w') \<Rightarrow> (Inl e, w')
         | (Inr resp, w') \<Rightarrow>
             (case resp_json resp of
                None \<Rightarrow> (Inl JSONDecodeError, w')
              | Some j \<Rightarrow> (map_sum (\<lambda>e. e) fp_results (load j), w')))"

subsection \<open>The handle client (\<^verbatim>\<open>handles.py\<close>)\<close>

record 'w HandleClient =
  client :: "'w CxClient"
  url_base :: string

text \<open>\<^verbatim>\<open>urllib.parse.quote\<close> is the parameter \<open>quote\<close>.\<close>

definition HandleClient_init :: "(string \<Rightarrow> string) \<Rightarrow> 'w CxClient \<Rightarrow> string \<Rightarrow> 'w HandleClient" where
  "HandleClient_init quote c handle = \<lparr>client = c, url_base = ''/handle/'' @ quote handle\<rparr>"

text \<open>
  \<^verbatim>\<open>resp = resp.json(); resp.pop("error")\<close>: the decoded body without its \<^verbatim>\<open>error\<close> key.
  \<^verbatim>\<open>dict.pop\<close> raises \<^verbatim>\<open>KeyError\<close> when the key is missing; a list's \<^verbatim>\<open>pop\<close> does not take a
  string, and the other JSON values have no \<^verbatim>\<open>pop\<close>.
\<close>

definition json_pop_error :: "http_response \<Rightarrow> error + json" where
  "json_pop_error resp =
     (case resp_json resp of
        None \<Rightarrow> Inl JSONDecodeError
      | Some (JDict d) \<Rightarrow>
          (if map_of d ''error'' = None then Inl (KeyError ''error'')
           else Inr (JDict (dict_del ''error'' d)))
      | Some (JList xs) \<Rightarrow> Inl (TypeError ''str object cannot be interpreted as an integer'')
      | Some v \<Rightarrow> Inl (AttributeError ''object has no attribute pop''))"

text \<open>
  In each operation \<open>load\<close> is the \<^verbatim>\<open>schema().load\<close> of its response class, generated by
  \<^verbatim>\<open>dataclasses_json\<close>.
\<close>

definition get ::
  "(json \<Rightarrow> error + HandleInfo) \<Rightarrow> 'w HandleClient \<Rightarrow> 'w world \<Rightarrow> (error + HandleInfo) \<times> 'w world" where
  "get load self w =
     (case send_and_check (client self) (url_base self) (Some ''GET'') None None w of
        (Inl e, w') \<Rightarrow> (Inl e, w')
      | (Inr resp, w') \<Rightarrow>
          (case json_pop_error resp of
             Inl e \<Rightarrow> (Inl e, w')
           | Inr j \<Rightarrow> (load j, w')))"

definition permissions ::
  "(json \<Rightarrow> error + HandlePermissions) \<Rightarrow> 'w HandleClient \<Rightarrow> 'w world
     \<Rightarrow> (error + HandlePermissions) \<times> 'w world" where
  "permissions load self w =
     (case send_and_check (client self) (url_base self @ ''/permissions'') (Some ''GET'') None None w of
        (Inl e, w') \<Rightarrow> (Inl e, w')
      | (Inr resp, w') \<Rightarrow>
          (case json_pop_error resp of
             Inl e \<Rightarrow> (Inl e, w')
           | Inr j \<Rightarrow> (load j, w')))"

definition stats ::
  "(json \<Rightarrow> error + HandleStats) \<Rightarrow> 'w HandleClient \<Rightarrow> 'w world \<Rightarrow> (error + HandleStats) \<times> 'w world" where
  "stats load self w =
     (case send_and_check (client self) (url_base self @ ''/stats'') (Some ''GET'') None None w of
        (Inl e, w') \<Rightarrow> (Inl e, w')
      | (Inr resp, w') \<Rightarrow>
          (case json_pop_error resp of
             Inl e \<Rightarrow> (Inl e, w')
           | Inr j \<Rightarrow> (load j, w')))"

text \<open>
  The two \<^verbatim>\<open>try\<close> blocks of \<^verbatim>\<open>scene_info\<close>: whatever \<^verbatim>\<open>int()\<close> or the \<^verbatim>\<open>assert\<close> raises is
  caught and replaced by a \<^verbatim>\<open>ValueError\<close>. Asserts are enabled (no \<^verbatim>\<open>-O\<close>).
\<close>

definition scene_info ::
  "(json \<Rightarrow> error + SceneInfoResponse) \<Rightarrow> 'w HandleClient \<Rightarrow> pyval \<Rightarrow> pyval \<Rightarrow> 'w world
     \<Rightarrow> (error + SceneInfo list) \<times> 'w world" where
  "scene_info load self page_num page_size w =
     (case (case py_int page_num of
              Inl e \<Rightarrow> Inl (ValueError ''invalid page_num argument'')
            | Inr n \<Rightarrow> if n \<ge> 0 then Inr n else Inl (ValueError ''invalid page_num argument'')) of
        Inl e \<Rightarrow> (Inl e, w)
      | Inr use_page_num \<Rightarrow>
          (case (case py_int page_size of
                   Inl e \<Rightarrow> Inl (ValueError ''invalid page_size argument'')
                 | Inr n \<Rightarrow> if n \<ge> 1 \<and> n \<le> 100 then Inr n
                            else Inl (ValueError ''invalid page_size argument'')) of
             Inl e \<Rightarrow> (Inl e, w)
           | Inr use_page_size \<Rightarrow>
               (case send_and_check (client self) (url_base self @ ''/sceneinfo'') (Some ''GET'') None
                       (Some [(''page'', use_page_num), (''pagesize'', use_page_size)]) w of
                  (Inl e, w') \<Rightarrow> (Inl e, w')
                | (Inr resp, w') \<Rightarrow>
                    (case json_pop_error resp of
                       Inl e \<Rightarrow> (Inl e, w')
                     | Inr j \<Rightarrow> (map_sum (\<lambda>e. e) sir_results (load j), w')))))"

definition update ::
  "'w HandleClient \<Rightarrow> HandleUpdate \<Rightarrow> 'w world \<Rightarrow> (error + json) \<times> 'w world" where
  "update self updates w =
     (case send_and_check (client self) (url_base self) (Some ''PATCH'')
             (Some (JDict (strip_nulls_in_place (HandleUpdate_to_dict updates)))) None w of
        (Inl e, w') \<Rightarrow> (Inl e, w')
      | (Inr resp, w') \<Rightarrow>
          (case json_pop_error resp of
             Inl e \<Rightarrow> (Inl e, w')
           | Inr j \<Rightarrow> (Inr j, w')))"

definition add_image ::
  "(json \<Rightarrow> error + AddImageResponse) \<Rightarrow> 'w HandleClient \<Rightarrow> AddImageRequest \<Rightarrow> 'w world
     \<Rightarrow> (error + string) \<times> 'w world" where
  "add_image load self image_arg w =
     (case send_and_check (client self) (url_base self @ ''/image'') (Some ''POST'')
             (Some (JDict (strip_nulls_in_place (AddImageRequest_to_dict image_arg)))) None w of
        (Inl e, w') \<Rightarrow> (Inl e, w')
      | (Inr resp, w') \<Rightarrow>
          (case json_pop_error resp of
             Inl e \<Rightarrow> (Inl e, w')
           | Inr j \<Rightarrow> (map_sum (\<lambda>e. e) aip_id (load j), w')))"

definition add_scene ::
  "(json \<Rightarrow> error + AddSceneResponse) \<Rightarrow> 'w HandleClient \<Rightarrow> AddSceneRequest \<Rightarrow> 'w world
     \<Rightarrow> (error + string) \<times> 'w world" where
  "add_scene load self scene w =
     (case send_and_check (client self) (url_base self @ ''/scene'') (Some ''POST'')
             (Some (JDict (strip_nulls_in_place (AddSceneRequest_to_dict scene)))) None w of
        (Inl e, w') \<Rightarrow> (Inl e, w')
      | (Inr resp, w') \<Rightarrow>
          (case json_pop_error resp of
             Inl e \<Rightarrow> (Inl e, w')
           | Inr j \<Rightarrow> (map_sum (\<lambda>e. e) asp_id (load j), w')))"

definition get_timeline ::
  "(json \<Rightarrow> error + 's TimelineResponse) \<Rightarrow> 'w HandleClient \<Rightarrow> pyval \<Rightarrow> 'w world
     \<Rightarrow> (error + 's list) \<times> 'w world" where
  "get_timeline load self page_num w =
     (case (case py_int page_num of
              Inl e \<Rightarrow> Inl (ValueError ''invalid page_num argument'')
            | Inr n \<Rightarrow> if n \<ge> 0 then Inr n else Inl (ValueError ''invalid page_num argument'')) of
        Inl e \<Rightarrow> (Inl e, w)
      | Inr use_page_num \<Rightarrow>
          (case send_and_check (client self) (url_base self @ ''/timeline'') (Some ''GET'') None
                  (Some [(''page'', use_page_num)]) w of
             (Inl e, w') \<Rightarrow> (Inl e, w')
           | (Inr resp, w') \<Rightarrow>
               (case json_pop_error resp of
                  Inl e \<Rightarrow> (Inl e, w')
                | Inr j \<Rightarrow> (map_sum (\<lambda>e. e) tr_results (load j), w'))))"

subsection \<open>The adapters for \<^verbatim>\<open>wwt_data_formats\<close> objects\<close>

text \<open>
  The members of the external enumeration \<^verbatim>\<open>DataSetType\<close>, a \<^verbatim>\<open>ProjectionType\<close> member with
  its \<^verbatim>\<open>value\<close>, and the attributes of an \<^verbatim>\<open>ImageSet\<close> and of a \<^verbatim>\<open>Place\<close> that the adapters
  read.
\<close>

datatype DataSetType = EARTH | PLANET | SKY | PANORAMA | SOLAR_SYSTEM

datatype ProjectionType = ProjectionType string

fun projection_value :: "ProjectionType \<Rightarrow> string" where
  "projection_value (ProjectionType v) = v"

record ImageSet =
  iset_data_set_type :: DataSetType
  iset_base_tile_level :: int
  iset_base_degrees_per_tile :: real
  iset_bottoms_up :: bool
  iset_center_x :: real
  iset_center_y :: real
  iset_file_type :: string
  iset_offset_x :: real
  iset_offset_y :: real
  iset_projection :: ProjectionType
  iset_quad_tree_map :: "string option"
  iset_rotation_deg :: real
  iset_tile_levels :: int
  iset_width_factor :: int
  iset_thumbnail_url :: string
  iset_url :: string
  iset_name :: string

record Place =
  pl_background_image_set :: "ImageSet option"
  pl_image_set :: "ImageSet option"
  pl_foreground_image_set :: "ImageSet option"
  pl_ra_hr :: real
  pl_dec_deg :: real
  pl_zoom_level :: real
  pl_rotation_deg :: real
  pl_name :: string

definition H2R :: real where
  "H2R = pi / 12"

definition D2R :: real where
  "D2R = pi / 180"

definition add_image_from_set ::
  "(json \<Rightarrow> error + AddImageResponse) \<Rightarrow> 'w HandleClient \<Rightarrow> ImageSet \<Rightarrow> 'w world
     \<Rightarrow> (error + string) \<times> 'w world" where
  "add_image_from_set load self imageset w =
     (if iset_data_set_type imageset \<noteq> SKY
      then (Inl (ValueError ''Constellations imagesets must be of Sky type''), w)
      else if iset_base_tile_level imageset \<noteq> 0
      then (Inl (ValueError ''Constellations imagesets must have base tile levels of 0''), w)
      else
        (let api_wwt =
               \<lparr>wwt_base_degrees_per_tile = iset_base_degrees_per_tile imageset,
                wwt_bottoms_up = iset_bottoms_up imageset,
                wwt_center_x = iset_center_x imageset,
                wwt_center_y = iset_center_y imageset,
                wwt_file_type = iset_file_type imageset,
                wwt_offset_x = iset_offset_x imageset,
                wwt_offset_y = iset_offset_y imageset,
                wwt_projection = projection_value (iset_projection imageset),
                wwt_quad_tree_map =
                  (case iset_quad_tree_map imageset of None \<Rightarrow> [] | Some q \<Rightarrow> q),
                wwt_rotation = iset_rotation_deg imageset,
                wwt_tile_levels = iset_tile_levels imageset,
                wwt_width_factor = iset_width_factor imageset,
                wwt_thumbnail_url = iset_thumbnail_url imageset\<rparr>;
             storage = \<lparr>st_legacy_url_template = Some (iset_url imageset)\<rparr>;
             req = \<lparr>air_wwt = api_wwt, air_storage = storage, air_note = iset_name imageset\<rparr>
         in add_image load self req w))"

text \<open>
  The loop of \<^verbatim>\<open>add_scene_from_place\<close> over the background, main and foreground image
  sets: an absent one is skipped, the others are looked up by their URL, and the first
  hit of each lookup becomes a layer of opacity 1.
\<close>

fun lookup_layers ::
  "(json \<Rightarrow> error + FindImagesByLegacyResponse) \<Rightarrow> 'w CxClient \<Rightarrow> ImageSet option list
     \<Rightarrow> SceneImageLayer list \<Rightarrow> 'w world \<Rightarrow> (error + SceneImageLayer list) \<times> 'w world" where
  "lookup_layers load c [] image_layers w = (Inr image_layers, w)"
| "lookup_layers load c (None # rest) image_layers w = lookup_layers load c rest image_layers w"
| "lookup_layers load c (Some iset # rest) image_layers w =
     (case find_images_by_wwt_url load c (iset_url iset) w of
        (Inl e, w') \<Rightarrow> (Inl e, w')
      | (Inr hits, w') \<Rightarrow>
          (case hits of
             [] \<Rightarrow> (Inl (Exception ''unable to find Constellations record for image URL''), w')
           | h # hs \<Rightarrow>
               lookup_layers load c rest
                 (image_layers @ [\<lparr>sl_image_id = sm_id h, sl_opacity = 1.0\<rparr>]) w'))"

text \<open>
  The constructor that \<^verbatim>\<open>@dataclass\<close> generates for \<^verbatim>\<open>ScenePlace\<close>, called with keyword
  arguments: a keyword that is not a field raises \<^verbatim>\<open>TypeError\<close>, and so does a field with
  no default that is not given.
\<close>

definition ScenePlace_init :: "(string \<times> real) list \<Rightarrow> error + ScenePlace" where
  "ScenePlace_init kwargs =
     (case filter (\<lambda>k. k \<notin> set [''ra_rad'', ''dec_rad'', ''roll_rad'', ''roi_height_deg'',
                                  ''roi_aspect_ratio'']) (map fst kwargs) of
        k # ks \<Rightarrow> Inl (TypeError (''__init__() got an unexpected keyword argument '' @ k))
      | [] \<Rightarrow>
          (case (map_of kwargs ''ra_rad'', map_of kwargs ''dec_rad'', map_of kwargs ''roll_rad'',
                 map_of kwargs ''roi_height_deg'', map_of kwargs ''roi_aspect_ratio'') of
             (Some ra, Some dec, Some roll, Some h, Some a) \<Rightarrow>
               Inr \<lparr>sp_ra_rad = ra, sp_dec_rad = dec, sp_roll_rad = roll,
                    sp_roi_height_deg = h, sp_roi_aspect_ratio = a\<rparr>
           | _ \<Rightarrow> Inl (TypeError ''__init__() missing required positional arguments'')))"

definition add_scene_from_place ::
  "(json \<Rightarrow> error + FindImagesByLegacyResponse) \<Rightarrow> (json \<Rightarrow> error + AddSceneResponse)
     \<Rightarrow> 'w HandleClient \<Rightarrow> Place \<Rightarrow> 'w world \<Rightarrow> (error + string) \<times> 'w world" where
  "add_scene_from_place load_find load self place w =
     (case lookup_layers load_find (client self)
             [pl_background_image_set place, pl_image_set place, pl_foreground_image_set place]
             [] w of
        (Inl e, w') \<Rightarrow> (Inl e, w')
      | (Inr image_layers, w') \<Rightarrow>
          (case ScenePlace_init
                  [(''ra_rad'', pl_ra_hr place * H2R),
                   (''dec_rad'', pl_dec_deg place * D2R),
                   (''zoom_deg'', pl_zoom_level place),
                   (''roll_rad'', pl_rotation_deg place * D2R)] of
             Inl e \<Rightarrow> (Inl e, w')
           | Inr api_place \<Rightarrow>
               (let content = \<lparr>sc_image_layers = Some image_layers\<rparr>;
                    req = \<lparr>asr_place = api_place, asr_content = content,
                           asr_outgoing_url = None, asr_text = pl_name place\<rparr>
                in add_scene load self req w')))"

subsection \<open>Successful exchanges and concrete runs\<close>

text \<open>
  The token client answers \<open>req\<close>, in the state of \<open>w\<close>, with a response that
  \<^verbatim>\<open>raise_for_status\<close> accepts and whose body is the JSON object \<open>d\<close>.
\<close>

definition success_with :: "'w CxClient \<Rightarrow> 'w world \<Rightarrow> http_request \<Rightarrow> dict \<Rightarrow> bool" where
  "success_with c w req d =
     (raise_for_status (fst (oidcc_send_request c (backend w) req)) = None \<and>
      resp_json (fst (oidcc_send_request c (backend w) req)) = Some (JDict d))"

text \<open>\<^verbatim>\<open>d.pop("error")\<close> on a dictionary: what is left of \<open>d\<close>, or the \<^verbatim>\<open>KeyError\<close>.\<close>

definition pop_error_of :: "dict \<Rightarrow> error + json" where
  "pop_error_of d = (if map_of d ''error'' = None then Inl (KeyError ''error'')
                     else Inr (JDict (dict_del ''error'' d)))"

text \<open>
  For concrete runs: a token client that answers every request with the same response, a
  success response with a given JSON body, a handle client for the handle \<^verbatim>\<open>wwt\<close> on a local
  server talking to such a token client, a world in which nothing has been sent, a loader
  that refuses everything, and the loader of \<^verbatim>\<open>HandleInfo\<close> (both fields required, both
  strings, no other key accepted).
\<close>

definition fixed_reply :: "http_response \<Rightarrow> unit \<Rightarrow> http_request \<Rightarrow> http_response \<times> unit" where
  "fixed_reply resp b req = (resp, b)"

definition ok_response :: "json \<Rightarrow> http_response" where
  "ok_response j =
     \<lparr>resp_status_code = 200, resp_reason = ''OK'', resp_url = [], resp_text = [],
      resp_json = Some j\<rparr>"

definition local_handle_client :: "http_response \<Rightarrow> unit HandleClient" where
  "local_handle_client resp =
     \<lparr>client =
        \<lparr>config = \<lparr>id_provider_url = ''http://localhost:8080/realms/constellations'',
                    client_id = ''cli-tool'', api_url = ''http://localhost:7000''\<rparr>,
         oidcc_send_request = fixed_reply resp\<rparr>,
      url_base = ''/handle/wwt''\<rparr>"

definition fresh_world :: "unit world" where
  "fresh_world = \<lparr>backend = (), sent = []\<rparr>"

definition reject :: "json \<Rightarrow> error + 'a" where
  "reject j = Inl (SchemaError ''rejected'')"

definition load_HandleInfo :: "json \<Rightarrow> error + HandleInfo" where
  "load_HandleInfo j =
     (case j of
        JDict d \<Rightarrow>
          (if list_all (\<lambda>k. k \<in> set [''handle'', ''display_name'']) (map fst d)
           then (case (map_of d ''handle'', map_of d ''display_name'') of
                   (Some (JStr h), Some (JStr n)) \<Rightarrow> Inr \<lparr>hi_handle = h, hi_display_name = n\<rparr>
                 | _ \<Rightarrow> Inl (SchemaError ''Missing data for required field or not a valid string''))
           else Inl (SchemaError ''Unknown field''))
      | _ \<Rightarrow> Inl (SchemaError ''Invalid input type''))"

section \<open>Properties\<close>

subsection \<open>String helpers\<close>

lemma startswith_iff_prefix: "startswith s sub \<longleftrightarrow> prefix sub s"
  by (induction s sub rule: startswith.induct) auto

lemma str_contains_iff_sublist: "str_contains sub s \<longleftrightarrow> sublist sub s"
  by (induction s) (simp_all add: startswith_iff_prefix sublist_Cons_right)

lemma endswith_iff_suffix: "endswith s suf \<longleftrightarrow> suffix suf s"
proof
  assume "endswith s suf"
  then have "s = take (length s - length suf) s @ suf"
    by (metis append_take_drop_id endswith_def)
  then show "suffix suf s"
    by (metis suffixI)
next
  assume "suffix suf s"
  then obtain p where "s = p @ suf"
    by (auto simp: suffix_def)
  then show "endswith s suf"
    by (simp add: endswith_def)
qed

subsection \<open>Client configuration\<close>

lemma new_default_unset:
  "environ ''NUXT_PUBLIC_API_URL'' = None \<Longrightarrow> is_ConfigError (new_default environ)"
  by (simp add: new_default_def)

lemma new_default_inferred:
  assumes "environ ''NUXT_PUBLIC_API_URL'' = Some url"
    and "environ ''NUXT_PUBLIC_KEYCLOAK_URL'' = None"
    and "environ ''KEYCLOAK_URL'' = None"
  shows "new_default environ =
     (if sublist ''localhost'' url then
        Inr \<lparr>id_provider_url = ''http://localhost:8080/realms/constellations'',
             client_id = (case environ ''WWT_API_CLIENT_ID'' of None \<Rightarrow> ''cli-tool'' | Some c \<Rightarrow> c),
             api_url = (if endswith url ''/'' then butlast url else url)\<rparr>
      else if sublist ''wwtelescope.dev'' url then
        Inr \<lparr>id_provider_url = ''https://wwtelescope.dev/auth/realms/constellations'',
             client_id = (case environ ''WWT_API_CLIENT_ID'' of None \<Rightarrow> ''cli-tool'' | Some c \<Rightarrow> c),
             api_url = (if endswith url ''/'' then butlast url else url)\<rparr>
      else Inl (Exception
        ''unable to infer the WWT Constellations Keycloak URL; set the environment variable NUXT_PUBLIC_KEYCLOAK_URL''))"
  using assms
  by (simp add: new_default_def str_contains_iff_sublist endswith_def)

lemma new_default_id_provider_url:
  "new_default environ = Inr c \<Longrightarrow> endswith (id_provider_url c) ''/realms/constellations''"
  by (auto simp: new_default_def Let_def endswith_iff_suffix suffix_def split: option.splits if_splits)

text \<open>
  C1 (as amended). When \<^verbatim>\<open>NUXT_PUBLIC_API_URL\<close> is unset, \<^verbatim>\<open>new_default\<close> raises. When it is
  set and neither \<^verbatim>\<open>NUXT_PUBLIC_KEYCLOAK_URL\<close> nor \<^verbatim>\<open>KEYCLOAK_URL\<close> is: for a URL that contains
  \<^verbatim>\<open>localhost\<close> the identity provider is \<^verbatim>\<open>http://localhost:8080/realms/constellations\<close>; for
  a URL that contains \<^verbatim>\<open>wwtelescope.dev\<close> and does not contain \<^verbatim>\<open>localhost\<close> it is
  \<^verbatim>\<open>https://wwtelescope.dev/auth/realms/constellations\<close>; for a URL that contains neither,
  \<^verbatim>\<open>new_default\<close> raises.
\<close>

theorem new_default_derivation:
  "(environ ''NUXT_PUBLIC_API_URL'' = None \<longrightarrow> is_ConfigError (new_default environ)) \<and>
   (\<forall>url. environ ''NUXT_PUBLIC_API_URL'' = Some url \<and>
          environ ''NUXT_PUBLIC_KEYCLOAK_URL'' = None \<and> environ ''KEYCLOAK_URL'' = None \<longrightarrow>
       (sublist ''localhost'' url \<longrightarrow>
          (\<exists>c. new_default environ = Inr c \<and>
               id_provider_url c = ''http://localhost:8080/realms/constellations'')) \<and>
       (sublist ''wwtelescope.dev'' url \<and> \<not> sublist ''localhost'' url \<longrightarrow>
          (\<exists>c. new_default environ = Inr c \<and>
               id_provider_url c = ''https://wwtelescope.dev/auth/realms/constellations'')) \<and>
       (\<not> sublist ''localhost'' url \<and> \<not> sublist ''wwtelescope.dev'' url \<longrightarrow>
          is_ConfigError (new_default environ)))"
  by (auto simp: new_default_unset new_default_inferred)

theorem new_default_derivation_witness:
  "new_default [''NUXT_PUBLIC_API_URL'' \<mapsto> ''http://localhost:7000''] =
     Inr \<lparr>id_provider_url = ''http://localhost:8080/realms/constellations'',
          client_id = ''cli-tool'', api_url = ''http://localhost:7000''\<rparr> \<and>
   new_default [''NUXT_PUBLIC_API_URL'' \<mapsto> ''https://api.wwtelescope.dev/''] =
     Inr \<lparr>id_provider_url = ''https://wwtelescope.dev/auth/realms/constellations'',
          client_id = ''cli-tool'', api_url = ''https://api.wwtelescope.dev''\<rparr> \<and>
   is_ConfigError (new_default [''NUXT_PUBLIC_API_URL'' \<mapsto> ''https://example.org'']) \<and>
   is_ConfigError (new_default Map.empty)"
  using new_default_derivation [of "[''NUXT_PUBLIC_API_URL'' \<mapsto> ''http://localhost:7000'']"]
    new_default_derivation [of "[''NUXT_PUBLIC_API_URL'' \<mapsto> ''https://api.wwtelescope.dev/'']"]
    new_default_derivation [of "[''NUXT_PUBLIC_API_URL'' \<mapsto> ''https://example.org'']"]
    new_default_derivation [of "Map.empty"]
  by (simp add: new_default_def endswith_def)

text \<open>
  The claim as written asks for the development identity provider whenever the URL
  contains \<^verbatim>\<open>wwtelescope.dev\<close>. The \<^verbatim>\<open>localhost\<close> test comes first in the code: a URL with both
  substrings gets the local identity provider.
\<close>

theorem new_default_precedence_counterexample:
  "sublist ''wwtelescope.dev'' ''http://localhost:7000/wwtelescope.dev'' \<and>
   [''NUXT_PUBLIC_API_URL'' \<mapsto> ''http://localhost:7000/wwtelescope.dev''] ''NUXT_PUBLIC_KEYCLOAK_URL'' = None \<and>
   [''NUXT_PUBLIC_API_URL'' \<mapsto> ''http://localhost:7000/wwtelescope.dev''] ''KEYCLOAK_URL'' = None \<and>
   new_default [''NUXT_PUBLIC_API_URL'' \<mapsto> ''http://localhost:7000/wwtelescope.dev''] =
     Inr \<lparr>id_provider_url = ''http://localhost:8080/realms/constellations'',
          client_id = ''cli-tool'', api_url = ''http://localhost:7000/wwtelescope.dev''\<rparr> \<and>
   ''http://localhost:8080/realms/constellations'' \<noteq> ''https://wwtelescope.dev/auth/realms/constellations''"
  by (simp add: new_default_def endswith_def str_contains_iff_sublist [symmetric])

text \<open>
  C8. \<^verbatim>\<open>new_dev\<close> returns an \<^verbatim>\<open>api_url\<close> that ends in a slash, and \<^verbatim>\<open>new_default\<close> removes one
  trailing slash only, so an \<^verbatim>\<open>api_url\<close> given with two keeps one.
\<close>

theorem new_dev_api_url_trailing_slash:
  "endswith (api_url new_dev) ''/'' \<and>
   new_default [''NUXT_PUBLIC_API_URL'' \<mapsto> ''http://localhost:7000//''] =
     Inr \<lparr>id_provider_url = ''http://localhost:8080/realms/constellations'',
          client_id = ''cli-tool'', api_url = ''http://localhost:7000/''\<rparr>"
  by (simp add: new_dev_def new_default_def endswith_def)

subsection \<open>The null-stripping normaliser\<close>

lemma fold_dict_del: "fold dict_del ks d = filter (\<lambda>kv. fst kv \<notin> set ks) d"
  by (induction ks arbitrary: d) (auto simp: dict_del_def intro: filter_cong)

lemma strip_nulls_unfold:
  "strip_nulls_in_place d =
     filter (\<lambda>kv. fst kv \<notin> fst ` {kv \<in> set d. snd kv = JNull})
       (map (\<lambda>kv. (fst kv, strip_val (snd kv))) d)"
proof -
  have 1: "(\<lambda>(key, val). (key, case val of JDict sub \<Rightarrow> JDict (strip_nulls_in_place sub) | _ \<Rightarrow> val))
        = (\<lambda>kv. (fst kv, strip_val (snd kv)))"
    by (auto simp: strip_val_def fun_eq_iff split: json.splits)
  have 2: "set (map fst (filter (\<lambda>(key, val). val = JNull) d)) = fst ` {kv \<in> set d. snd kv = JNull}"
    by (auto simp: case_prod_beta)
  show ?thesis
    by (subst strip_nulls_in_place.simps) (simp only: Let_def fold_dict_del 1 2)
qed

lemma strip_val_eq_JNull [simp]: "strip_val v = JNull \<longleftrightarrow> v = JNull"
  by (cases v) (simp_all add: strip_val_def)

lemma strip_nulls_no_nulls: "no_nulls (JDict (strip_nulls_in_place d))"
proof (induction d rule: strip_nulls_in_place.induct)
  case (1 d)
  have "snd kv \<noteq> JNull \<and> no_nulls (snd kv)"
    if "kv \<in> set (strip_nulls_in_place d)" for kv
  proof -
    from that obtain k v where kv: "kv = (k, strip_val v)" "(k, v) \<in> set d"
      and nk: "k \<notin> fst ` {kv \<in> set d. snd kv = JNull}"
      by (subst (asm) strip_nulls_unfold) auto
    from kv(2) nk have "v \<noteq> JNull" by force
    moreover have "no_nulls (strip_val v)"
    proof (cases v)
      case (JDict sub)
      with 1 [OF kv(2) refl JDict] show ?thesis by (simp add: strip_val_def)
    qed (simp_all add: strip_val_def)
    ultimately show ?thesis using kv(1) by simp
  qed
  then show ?case by (simp add: list_all_iff)
qed

lemma strip_nulls_idem: "strip_nulls_in_place (strip_nulls_in_place d) = strip_nulls_in_place d"
proof (induction d rule: strip_nulls_in_place.induct)
  case (1 d)
  let ?r = "strip_nulls_in_place d"
  have nn: "snd kv \<noteq> JNull" if "kv \<in> set ?r" for kv
    using strip_nulls_no_nulls [of d] that by (simp add: list_all_iff)
  have fixed: "strip_val (snd kv) = snd kv" if "kv \<in> set ?r" for kv
  proof -
    from that obtain k v where kv: "kv = (k, strip_val v)" "(k, v) \<in> set d"
      by (subst (asm) strip_nulls_unfold) auto
    show ?thesis
    proof (cases v)
      case (JDict sub)
      with 1 [OF kv(2) refl JDict] kv(1) show ?thesis by (simp add: strip_val_def)
    qed (simp_all add: kv(1) strip_val_def)
  qed
  have e: "{kv \<in> set ?r. snd kv = JNull} = {}"
    using nn by auto
  have "strip_nulls_in_place ?r =
      filter (\<lambda>kv. fst kv \<notin> fst ` {kv \<in> set ?r. snd kv = JNull})
        (map (\<lambda>kv. (fst kv, strip_val (snd kv))) ?r)"
    by (rule strip_nulls_unfold)
  also have "\<dots> = map (\<lambda>kv. (fst kv, strip_val (snd kv))) ?r"
    unfolding e by simp
  also have "\<dots> = map (\<lambda>kv. kv) ?r"
    by (rule map_cong) (simp_all add: fixed)
  finally show ?case by simp
qed

lemma strip_nulls_keeps_lists:
  assumes "distinct (map fst d)" and "(k, JList xs) \<in> set d"
  shows "(k, JList xs) \<in> set (strip_nulls_in_place d)"
proof -
  have "k \<notin> fst ` {kv \<in> set d. snd kv = JNull}"
  proof
    assume "k \<in> fst ` {kv \<in> set d. snd kv = JNull}"
    then have "(k, JNull) \<in> set d" by force
    with assms show False
      by (metis eq_key_imp_eq_value json.distinct(9))
  qed
  with assms(2) show ?thesis
    by (subst strip_nulls_unfold) (force simp: strip_val_def)
qed

lemma repr_frame:
  "repr s v j F \<Longrightarrow> (\<And>s'. (\<forall>x\<in>F. s' x = s x) \<Longrightarrow> repr s' v j F)"
  "repr_list s vs js F \<Longrightarrow> (\<And>s'. (\<forall>x\<in>F. s' x = s x) \<Longrightarrow> repr_list s' vs js F)"
  "repr_items s items d F \<Longrightarrow> (\<And>s'. (\<forall>x\<in>F. s' x = s x) \<Longrightarrow> repr_items s' items d F)"
proof (induction rule: repr_repr_list_repr_items.inducts)
  case (repr_Dict s a items d F)
  then show ?case by (auto intro!: repr_repr_list_repr_items.repr_Dict)
next
  case (repr_list_Cons s v j F vs js G)
  then show ?case by (auto intro!: repr_repr_list_repr_items.repr_list_Cons)
next
  case (repr_items_Cons s v j F items d G k)
  then show ?case by (auto intro!: repr_repr_list_repr_items.repr_items_Cons)
qed (auto intro: repr_repr_list_repr_items.intros)

lemma visit_items_Cons:
  "visit_items (strip_nulls_store n) s ((k, v) # rest) =
     (case visit_val n s v of None \<Rightarrow> None | Some s' \<Rightarrow> visit_items (strip_nulls_store n) s' rest)"
  by (cases v) (simp_all add: visit_val_def)

inductive_cases repr_items_ConsE: "repr_items s (kv # items) d F"
inductive_cases repr_items_NilE: "repr_items s [] d F"
inductive_cases repr_ONoneE: "repr s ONone j F"
inductive_cases repr_JNullE: "repr s v JNull F"

lemma repr_null_iff: "repr s v j F \<Longrightarrow> v = ONone \<longleftrightarrow> j = JNull"
  by (auto elim: repr_ONoneE repr_JNullE)

lemma repr_items_null_keys:
  "repr_items s items d F \<Longrightarrow>
   map fst (filter (\<lambda>(key, val). val = ONone) items) = map fst (filter (\<lambda>kv. snd kv = JNull) d)"
proof (induction items arbitrary: d F)
  case Nil
  then show ?case by (auto elim: repr_items_NilE)
next
  case (Cons kv items)
  from Cons.prems obtain k v j d' F1 G where c: "kv = (k, v)" "d = (k, j) # d'" "F = F1 \<union> G"
      "repr s v j F1" "repr_items s items d' G" "F1 \<inter> G = {}"
    by (auto elim: repr_items_ConsE)
  with Cons.IH [of d' G] repr_null_iff [of s v j F1] show ?case by auto
qed

lemma repr_items_filter:
  "repr_items s items d F \<Longrightarrow>
   \<exists>F'. F' \<subseteq> F \<and> repr_items s (filter (\<lambda>kv. P (fst kv)) items) (filter (\<lambda>kv. P (fst kv)) d) F'"
proof (induction items arbitrary: d F)
  case Nil
  then show ?case by (auto elim!: repr_items_NilE intro: repr_items_Nil)
next
  case (Cons kv items)
  from Cons.prems obtain k v j d' F1 G where c: "kv = (k, v)" "d = (k, j) # d'" "F = F1 \<union> G"
      "repr s v j F1" "repr_items s items d' G" "F1 \<inter> G = {}"
    by (auto elim: repr_items_ConsE)
  from Cons.IH [OF c(5)] obtain G' where G': "G' \<subseteq> G"
    "repr_items s (filter (\<lambda>kv. P (fst kv)) items) (filter (\<lambda>kv. P (fst kv)) d') G'"
    by blast
  show ?case
  proof (cases "P k")
    case True
    have "repr_items s ((k, v) # filter (\<lambda>kv. P (fst kv)) items)
            ((k, j) # filter (\<lambda>kv. P (fst kv)) d') (F1 \<union> G')"
      using c(4) G' c(6) by (intro repr_items_Cons) auto
    with True c G' show ?thesis by (intro exI [of _ "F1 \<union> G'"]) auto
  next
    case False
    with c G' show ?thesis by (intro exI [of _ G']) auto
  qed
qed

lemma fold_items_del: "fold items_del ks d = filter (\<lambda>kv. fst kv \<notin> set ks) d"
  by (induction ks arbitrary: d) (auto simp: items_del_def intro: filter_cong)

lemma strip_val_simps [simp]:
  "strip_val JNull = JNull" "strip_val (JBool b) = JBool b" "strip_val (JInt i) = JInt i"
  "strip_val (JFloat x) = JFloat x" "strip_val (JStr t) = JStr t" "strip_val (JList js) = JList js"
  "strip_val (JDict d) = JDict (strip_nulls_in_place d)"
  by (simp_all add: strip_val_def)

lemma strip_store_aux:
  "repr s v j F \<Longrightarrow>
     \<exists>n0. \<forall>n\<ge>n0. \<forall>s0. (\<forall>x\<in>F. s0 x = s x) \<longrightarrow>
       (\<exists>s' F'. visit_val n s0 v = Some s' \<and> F' \<subseteq> F \<and>
           repr s' v (strip_val j) F' \<and> (\<forall>x. x \<notin> F \<longrightarrow> s' x = s0 x))"
  "repr_list s vs js F \<Longrightarrow> True"
  "repr_items s items d F \<Longrightarrow>
     \<exists>n0. \<forall>n\<ge>n0. \<forall>s0. (\<forall>x\<in>F. s0 x = s x) \<longrightarrow>
       (\<exists>s' F'. visit_items (strip_nulls_store n) s0 items = Some s' \<and> F' \<subseteq> F \<and>
           repr_items s' items (map (\<lambda>kv. (fst kv, strip_val (snd kv))) d) F' \<and>
           (\<forall>x. x \<notin> F \<longrightarrow> s' x = s0 x))"
proof (induction rule: repr_repr_list_repr_items.inducts)
  case (repr_None s)
  then show ?case by (auto simp: visit_val_def intro: repr_repr_list_repr_items.intros)
next
  case (repr_Bool s b)
  then show ?case by (auto simp: visit_val_def intro: repr_repr_list_repr_items.intros)
next
  case (repr_Int s i)
  then show ?case by (auto simp: visit_val_def intro: repr_repr_list_repr_items.intros)
next
  case (repr_Float s x)
  then show ?case by (auto simp: visit_val_def intro: repr_repr_list_repr_items.intros)
next
  case (repr_Str s t)
  then show ?case by (auto simp: visit_val_def intro: repr_repr_list_repr_items.intros)
next
  case (repr_List s vs js F)
  have "\<exists>s' F'. visit_val n s0 (OList vs) = Some s' \<and> F' \<subseteq> F \<and>
           repr s' (OList vs) (strip_val (JList js)) F' \<and> (\<forall>x. x \<notin> F \<longrightarrow> s' x = s0 x)"
    if ag: "\<forall>x\<in>F. s0 x = s x" for n s0
  proof -
    from repr_frame(2) [OF repr_List.hyps ag] have "repr s0 (OList vs) (JList js) F"
      by (rule repr_repr_list_repr_items.repr_List)
    then show ?thesis
      by (auto simp: visit_val_def)
  qed
  then show ?case by blast
next
  case (repr_Dict s a items d F)
  from repr_Dict.IH obtain n0 where n0:
    "\<forall>n\<ge>n0. \<forall>s0. (\<forall>x\<in>F. s0 x = s x) \<longrightarrow>
       (\<exists>s' F'. visit_items (strip_nulls_store n) s0 items = Some s' \<and> F' \<subseteq> F \<and>
           repr_items s' items (map (\<lambda>kv. (fst kv, strip_val (snd kv))) d) F' \<and>
           (\<forall>x. x \<notin> F \<longrightarrow> s' x = s0 x))"
    by blast
  let ?ks = "map fst (filter (\<lambda>(key, val). val = ONone) items)"
  have ks: "set ?ks = fst ` {kv \<in> set d. snd kv = JNull}"
    using repr_items_null_keys [OF repr_Dict.hyps(2)] by (simp only:) auto
  have "\<exists>s' F'. visit_val n s0 (ORef a) = Some s' \<and> F' \<subseteq> insert a F \<and>
         repr s' (ORef a) (strip_val (JDict d)) F' \<and> (\<forall>x. x \<notin> insert a F \<longrightarrow> s' x = s0 x)"
    if "n \<ge> Suc n0" and ag: "\<forall>x\<in>insert a F. s0 x = s x" for n s0
  proof -
    from ag have agF: "\<forall>x\<in>F. s0 x = s x" and s0a: "s0 a = Some items"
      using repr_Dict.hyps(1) by auto
    from that obtain m where n: "n = Suc m" and m: "m \<ge> n0"
      by (cases n) auto
    from n0 m agF obtain s1 F1 where s1: "visit_items (strip_nulls_store m) s0 items = Some s1"
      "F1 \<subseteq> F" "repr_items s1 items (map (\<lambda>kv. (fst kv, strip_val (snd kv))) d) F1"
      "\<forall>x. x \<notin> F \<longrightarrow> s1 x = s0 x"
      by blast
    from s1(4) repr_Dict.hyps(3) s0a have s1a: "s1 a = Some items" by simp
    let ?d' = "filter (\<lambda>kv. fst kv \<notin> set ?ks) items"
    let ?s' = "s1(a \<mapsto> ?d')"
    have run: "visit_val n s0 (ORef a) = Some ?s'"
      by (simp add: visit_val_def n s0a s1(1) s1a fold_items_del)
    from repr_items_filter [OF s1(3), of "\<lambda>k. k \<notin> set ?ks"] obtain F2 where F2: "F2 \<subseteq> F1"
      "repr_items s1 ?d'
         (filter (\<lambda>kv. fst kv \<notin> set ?ks) (map (\<lambda>kv. (fst kv, strip_val (snd kv))) d)) F2"
      by blast
    have aF2: "a \<notin> F2" using F2(1) s1(2) repr_Dict.hyps(3) by auto
    then have "\<forall>x\<in>F2. ?s' x = s1 x" by auto
    from repr_frame(3) [OF F2(2) this]
    have "repr_items ?s' ?d'
         (filter (\<lambda>kv. fst kv \<notin> set ?ks) (map (\<lambda>kv. (fst kv, strip_val (snd kv))) d)) F2" .
    then have "repr_items ?s' ?d' (strip_nulls_in_place d) F2"
      by (simp only: ks strip_nulls_unfold [symmetric])
    then have "repr ?s' (ORef a) (JDict (strip_nulls_in_place d)) (insert a F2)"
      using aF2 by (intro repr_repr_list_repr_items.repr_Dict) auto
    then have r: "repr ?s' (ORef a) (strip_val (JDict d)) (insert a F2)"
      by simp
    have sub: "insert a F2 \<subseteq> insert a F" using F2(1) s1(2) by auto
    have fr: "\<forall>x. x \<notin> insert a F \<longrightarrow> ?s' x = s0 x" using s1(4) by auto
    from run r sub fr show ?thesis by blast
  qed
  then show ?case by blast
next
  case (repr_list_Nil s)
  then show ?case by simp
next
  case (repr_list_Cons s v j F vs js G)
  then show ?case by simp
next
  case (repr_items_Nil s)
  then show ?case by (auto intro: repr_repr_list_repr_items.repr_items_Nil)
next
  case (repr_items_Cons s v j F items d G k)
  from repr_items_Cons.IH(1) obtain n1 where n1:
    "\<forall>n\<ge>n1. \<forall>s0. (\<forall>x\<in>F. s0 x = s x) \<longrightarrow>
       (\<exists>s' F'. visit_val n s0 v = Some s' \<and> F' \<subseteq> F \<and>
           repr s' v (strip_val j) F' \<and> (\<forall>x. x \<notin> F \<longrightarrow> s' x = s0 x))"
    by blast
  from repr_items_Cons.IH(2) obtain n2 where n2:
    "\<forall>n\<ge>n2. \<forall>s0. (\<forall>x\<in>G. s0 x = s x) \<longrightarrow>
       (\<exists>s' F'. visit_items (strip_nulls_store n) s0 items = Some s' \<and> F' \<subseteq> G \<and>
           repr_items s' items (map (\<lambda>kv. (fst kv, strip_val (snd kv))) d) F' \<and>
           (\<forall>x. x \<notin> G \<longrightarrow> s' x = s0 x))"
    by blast
  have "\<exists>s' F'. visit_items (strip_nulls_store n) s0 ((k, v) # items) = Some s' \<and> F' \<subseteq> F \<union> G \<and>
         repr_items s' ((k, v) # items)
           (map (\<lambda>kv. (fst kv, strip_val (snd kv))) ((k, j) # d)) F' \<and>
         (\<forall>x. x \<notin> F \<union> G \<longrightarrow> s' x = s0 x)"
    if "n \<ge> max n1 n2" and ag: "\<forall>x\<in>F \<union> G. s0 x = s x" for n s0
  proof -
    from ag have agF: "\<forall>x\<in>F. s0 x = s x" and agG: "\<forall>x\<in>G. s0 x = s x" by auto
    from that(1) have ge1: "n \<ge> n1" and ge2: "n \<ge> n2" by auto
    from n1 ge1 agF obtain s1 F1 where s1: "visit_val n s0 v = Some s1" "F1 \<subseteq> F"
      "repr s1 v (strip_val j) F1" "\<forall>x. x \<notin> F \<longrightarrow> s1 x = s0 x"
      by blast
    have "\<forall>x\<in>G. s1 x = s x"
      using s1(4) agG repr_items_Cons.hyps(3) by auto
    with n2 ge2 obtain s2 F2 where s2: "visit_items (strip_nulls_store n) s1 items = Some s2" "F2 \<subseteq> G"
      "repr_items s2 items (map (\<lambda>kv. (fst kv, strip_val (snd kv))) d) F2"
      "\<forall>x. x \<notin> G \<longrightarrow> s2 x = s1 x"
      by blast
    have "\<forall>x\<in>F1. s2 x = s1 x"
      using s2(4) s1(2) repr_items_Cons.hyps(3) by auto
    from repr_frame(1) [OF s1(3) this] have "repr s2 v (strip_val j) F1" .
    moreover have "F1 \<inter> F2 = {}" using s1(2) s2(2) repr_items_Cons.hyps(3) by auto
    ultimately have "repr_items s2 ((k, v) # items)
        ((k, strip_val j) # map (\<lambda>kv. (fst kv, strip_val (snd kv))) d) (F1 \<union> F2)"
      using s2(3) by (intro repr_repr_list_repr_items.repr_items_Cons)
    then have r: "repr_items s2 ((k, v) # items)
        (map (\<lambda>kv. (fst kv, strip_val (snd kv))) ((k, j) # d)) (F1 \<union> F2)"
      by simp
    have sub: "F1 \<union> F2 \<subseteq> F \<union> G" using s1(2) s2(2) by auto
    have fr: "\<forall>x. x \<notin> F \<union> G \<longrightarrow> s2 x = s0 x" using s1(4) s2(4) by auto
    have run: "visit_items (strip_nulls_store n) s0 ((k, v) # items) = Some s2"
      by (subst visit_items_Cons) (simp add: s1(1) s2(1))
    from run r sub fr show ?thesis by blast
  qed
  then show ?case by blast
qed

lemma strip_nulls_store_refines:
  assumes "repr s (ORef a) (JDict d) F"
  shows "\<exists>n s' F'. strip_nulls_store n s a = Some s' \<and> F' \<subseteq> F \<and>
           repr s' (ORef a) (JDict (strip_nulls_in_place d)) F' \<and>
           (\<forall>x. x \<notin> F \<longrightarrow> s' x = s x)"
proof -
  from strip_store_aux(1) [OF assms] obtain n0 where
    "\<forall>n\<ge>n0. \<forall>s0. (\<forall>x\<in>F. s0 x = s x) \<longrightarrow>
       (\<exists>s' F'. visit_val n s0 (ORef a) = Some s' \<and> F' \<subseteq> F \<and>
           repr s' (ORef a) (strip_val (JDict d)) F' \<and> (\<forall>x. x \<notin> F \<longrightarrow> s' x = s0 x))"
    by blast
  then have "\<exists>s' F'. visit_val n0 s (ORef a) = Some s' \<and> F' \<subseteq> F \<and>
           repr s' (ORef a) (strip_val (JDict d)) F' \<and> (\<forall>x. x \<notin> F \<longrightarrow> s' x = s x)"
    by blast
  then show ?thesis
    by (auto simp: visit_val_def)
qed

lemma demo_repr:
  "repr demo_store (ORef 0)
     (JDict [(''a'', JNull), (''b'', JDict [(''c'', JNull), (''d'', JInt 1)]),
             (''l'', JList [JDict [(''x'', JNull)], JNull])]) {0, 1, 2}"
proof -
  have i2: "repr_items demo_store [(''x'', ONone)] [(''x'', JNull)] ({} \<union> {})"
    by (intro repr_items_Cons repr_None repr_items_Nil) simp
  have r2: "repr demo_store (ORef 2) (JDict [(''x'', JNull)]) (insert 2 ({} \<union> {}))"
    by (rule repr_Dict [OF _ i2]) (simp_all add: demo_store_def)
  have l0: "repr_list demo_store [ONone] [JNull] ({} \<union> {})"
    by (intro repr_list_Cons repr_None repr_list_Nil) simp
  have l: "repr demo_store (OList [ORef 2, ONone]) (JList [JDict [(''x'', JNull)], JNull])
      (insert 2 ({} \<union> {}) \<union> ({} \<union> {}))"
    by (intro repr_List repr_list_Cons r2 l0) simp
  have i1: "repr_items demo_store [(''c'', ONone), (''d'', OInt 1)] [(''c'', JNull), (''d'', JInt 1)]
      ({} \<union> ({} \<union> {}))"
    by (intro repr_items_Cons repr_None repr_Int repr_items_Nil) simp_all
  have r1: "repr demo_store (ORef 1) (JDict [(''c'', JNull), (''d'', JInt 1)])
      (insert 1 ({} \<union> ({} \<union> {})))"
    by (rule repr_Dict [OF _ i1]) (simp_all add: demo_store_def)
  have il: "repr_items demo_store [(''l'', OList [ORef 2, ONone])]
      [(''l'', JList [JDict [(''x'', JNull)], JNull])]
      ((insert 2 ({} \<union> {}) \<union> ({} \<union> {})) \<union> {})"
    by (intro repr_items_Cons l repr_items_Nil) simp
  have ib: "repr_items demo_store [(''b'', ORef 1), (''l'', OList [ORef 2, ONone])]
      [(''b'', JDict [(''c'', JNull), (''d'', JInt 1)]), (''l'', JList [JDict [(''x'', JNull)], JNull])]
      (insert 1 ({} \<union> ({} \<union> {})) \<union> ((insert 2 ({} \<union> {}) \<union> ({} \<union> {})) \<union> {}))"
    by (intro repr_items_Cons r1 il) simp
  have i0: "repr_items demo_store
      [(''a'', ONone), (''b'', ORef 1), (''l'', OList [ORef 2, ONone])]
      [(''a'', JNull), (''b'', JDict [(''c'', JNull), (''d'', JInt 1)]),
       (''l'', JList [JDict [(''x'', JNull)], JNull])]
      ({} \<union> (insert 1 ({} \<union> ({} \<union> {})) \<union> ((insert 2 ({} \<union> {}) \<union> ({} \<union> {})) \<union> {})))"
    by (intro repr_items_Cons repr_None ib) simp
  have "repr demo_store (ORef 0)
     (JDict [(''a'', JNull), (''b'', JDict [(''c'', JNull), (''d'', JInt 1)]),
             (''l'', JList [JDict [(''x'', JNull)], JNull])])
     (insert 0 ({} \<union> (insert 1 ({} \<union> ({} \<union> {})) \<union> ((insert 2 ({} \<union> {}) \<union> ({} \<union> {})) \<union> {}))))"
    by (rule repr_Dict [OF _ i0]) (simp_all add: demo_store_def)
  moreover have "insert 0 ({} \<union> (insert 1 ({} \<union> ({} \<union> {})) \<union> ((insert 2 ({} \<union> {}) \<union> ({} \<union> {})) \<union> {}))) = {0, 1, 2::nat}"
    by auto
  ultimately show ?thesis by simp
qed

lemma demo_run:
  "map_option (\<lambda>s'. (s' 0, s' 1, s' 2)) (strip_nulls_store 2 demo_store 0) =
     Some (Some [(''b'', ORef 1), (''l'', OList [ORef 2, ONone])],
           Some [(''d'', OInt 1)],
           Some [(''x'', ONone)])"
  by (simp add: demo_store_def numeral_2_eq_2 items_del_def)

lemma cyclic_run:
  "strip_nulls_store n [0 \<mapsto> [(''self'', ORef 0)]] 0 = None"
  by (induction n) simp_all

text \<open>
  C2. When the dictionary object at address \<open>a\<close> is the root of a tree that reads as \<open>d\<close>,
  the in-place run ends, leaves at the same address \<open>a\<close> (the reference it returns) a tree
  that reads as the stripped dictionary, and changes nothing outside the tree. In the
  stripped dictionary no key is bound to \<^verbatim>\<open>None\<close> at any depth of dictionary nesting;
  stripping it again changes nothing; and every entry of a well-formed dictionary whose
  value is a list is kept as it is, the \<^verbatim>\<open>None\<close>s inside its elements included.
\<close>

theorem strip_nulls_in_place_spec:
  "(repr s (ORef a) (JDict d) F \<longrightarrow>
      (\<exists>n s' F'. strip_nulls_store n s a = Some s' \<and> F' \<subseteq> F \<and>
          repr s' (ORef a) (JDict (strip_nulls_in_place d)) F' \<and>
          (\<forall>x. x \<notin> F \<longrightarrow> s' x = s x))) \<and>
   no_nulls (JDict (strip_nulls_in_place d)) \<and>
   strip_nulls_in_place (strip_nulls_in_place d) = strip_nulls_in_place d \<and>
   (distinct (map fst d) \<longrightarrow>
      (\<forall>k xs. (k, JList xs) \<in> set d \<longrightarrow> (k, JList xs) \<in> set (strip_nulls_in_place d)))"
  using strip_nulls_store_refines [of s a d F] strip_nulls_no_nulls [of d] strip_nulls_idem [of d]
    strip_nulls_keeps_lists [of d]
  by blast

text \<open>
  On the store of three dictionary objects the run with depth 2 removes \<^verbatim>\<open>a\<close> at address 0
  and \<^verbatim>\<open>c\<close> at address 1; the dictionary at address 2 is inside a list and keeps its
  \<^verbatim>\<open>None\<close>.
\<close>

theorem strip_nulls_in_place_spec_witness:
  "repr demo_store (ORef 0)
     (JDict [(''a'', JNull), (''b'', JDict [(''c'', JNull), (''d'', JInt 1)]),
             (''l'', JList [JDict [(''x'', JNull)], JNull])]) {0, 1, 2} \<and>
   map_option (\<lambda>s'. (s' 0, s' 1, s' 2)) (strip_nulls_store 2 demo_store 0) =
     Some (Some [(''b'', ORef 1), (''l'', OList [ORef 2, ONone])],
           Some [(''d'', OInt 1)],
           Some [(''x'', ONone)]) \<and>
   strip_nulls_in_place
     [(''a'', JNull), (''b'', JDict [(''c'', JNull), (''d'', JInt 1)]),
      (''l'', JList [JDict [(''x'', JNull)], JNull])] =
     [(''b'', JDict [(''d'', JInt 1)]), (''l'', JList [JDict [(''x'', JNull)], JNull])] \<and>
   no_nulls (JDict (strip_nulls_in_place
     [(''a'', JNull), (''b'', JDict [(''c'', JNull), (''d'', JInt 1)]),
      (''l'', JList [JDict [(''x'', JNull)], JNull])])) \<and>
   (''l'', JList [JDict [(''x'', JNull)], JNull]) \<in> set (strip_nulls_in_place
     [(''a'', JNull), (''b'', JDict [(''c'', JNull), (''d'', JInt 1)]),
      (''l'', JList [JDict [(''x'', JNull)], JNull])]) \<and>
   (\<exists>n s' F'. strip_nulls_store n demo_store 0 = Some s' \<and> F' \<subseteq> {0, 1, 2} \<and>
      repr s' (ORef 0)
        (JDict [(''b'', JDict [(''d'', JInt 1)]), (''l'', JList [JDict [(''x'', JNull)], JNull])]) F' \<and>
      (\<forall>x. x \<notin> {0, 1, 2} \<longrightarrow> s' x = demo_store x))"
proof -
  have ev: "strip_nulls_in_place
     [(''a'', JNull), (''b'', JDict [(''c'', JNull), (''d'', JInt 1)]),
      (''l'', JList [JDict [(''x'', JNull)], JNull])] =
     [(''b'', JDict [(''d'', JInt 1)]), (''l'', JList [JDict [(''x'', JNull)], JNull])]"
    by (simp add: strip_nulls_in_place.simps dict_del_def)
  from strip_nulls_in_place_spec [of demo_store 0
      "[(''a'', JNull), (''b'', JDict [(''c'', JNull), (''d'', JInt 1)]),
        (''l'', JList [JDict [(''x'', JNull)], JNull])]" "{0, 1, 2}"] demo_repr
  have "(\<exists>n s' F'. strip_nulls_store n demo_store 0 = Some s' \<and> F' \<subseteq> {0, 1, 2} \<and>
      repr s' (ORef 0) (JDict (strip_nulls_in_place
         [(''a'', JNull), (''b'', JDict [(''c'', JNull), (''d'', JInt 1)]),
          (''l'', JList [JDict [(''x'', JNull)], JNull])])) F' \<and>
      (\<forall>x. x \<notin> {0, 1, 2} \<longrightarrow> s' x = demo_store x))"
    by blast
  then show ?thesis
    using demo_repr demo_run by (simp only: ev) simp
qed

subsection \<open>The send primitive\<close>

lemma str_nat_nonempty: "str_nat n \<noteq> []"
  by (subst str_nat.simps) simp

lemma send_and_check_raises:
  assumes "oidcc_send_request c (backend w) (request c rel_url http_method json_arg params) = (resp, b)"
    and "400 \<le> resp_status_code resp" and "resp_status_code resp < 600"
  shows "\<exists>kind. send_and_check c rel_url http_method json_arg params w =
      (Inl (HTTPError (str_int (resp_status_code resp) @ kind @ resp_reason resp
                        @ '' for url: '' @ resp_url resp @ '': '' @ resp_text resp)),
       \<lparr>backend = b, sent = sent w @ [request c rel_url http_method json_arg params]\<rparr>)"
proof (cases "resp_status_code resp < 500")
  case True
  with assms show ?thesis
    by (intro exI [of _ "'' Client Error: ''"]) (simp add: send_and_check_def raise_for_status_def)
next
  case False
  with assms show ?thesis
    by (intro exI [of _ "'' Server Error: ''"]) (simp add: send_and_check_def raise_for_status_def)
qed

lemma send_and_check_returns:
  assumes "oidcc_send_request c (backend w) (request c rel_url http_method json_arg params) = (resp, b)"
    and "\<not> (400 \<le> resp_status_code resp \<and> resp_status_code resp < 600)"
  shows "send_and_check c rel_url http_method json_arg params w =
      (Inr resp, \<lparr>backend = b, sent = sent w @ [request c rel_url http_method json_arg params]\<rparr>)"
  using assms by (auto simp: send_and_check_def raise_for_status_def)

text \<open>
  C5 (as amended). When the status of the response is from 400 to 599,
  \<^verbatim>\<open>_send_and_check\<close> raises the \<^verbatim>\<open>HTTPError\<close> with a message that starts with the status,
  contains the reason and ends with the text of the response body; for every other
  status it returns the response as it received it.
\<close>

theorem send_and_check_status:
  assumes "oidcc_send_request c (backend w) (request c rel_url http_method json_arg params) = (resp, b)"
  shows "(400 \<le> resp_status_code resp \<and> resp_status_code resp < 600 \<longrightarrow>
            (\<exists>msg. fst (send_and_check c rel_url http_method json_arg params w) = Inl (HTTPError msg) \<and>
               prefix (str_int (resp_status_code resp)) msg \<and>
               sublist (resp_reason resp) msg \<and>
               suffix (resp_text resp) msg)) \<and>
         (\<not> (400 \<le> resp_status_code resp \<and> resp_status_code resp < 600) \<longrightarrow>
            fst (send_and_check c rel_url http_method json_arg params w) = Inr resp)"
proof (intro conjI impI)
  assume "400 \<le> resp_status_code resp \<and> resp_status_code resp < 600"
  with send_and_check_raises [OF assms] obtain kind where
    "send_and_check c rel_url http_method json_arg params w =
      (Inl (HTTPError (str_int (resp_status_code resp) @ kind @ resp_reason resp
                        @ '' for url: '' @ resp_url resp @ '': '' @ resp_text resp)),
       \<lparr>backend = b, sent = sent w @ [request c rel_url http_method json_arg params]\<rparr>)"
    by blast
  moreover have "sublist (resp_reason resp)
      (str_int (resp_status_code resp) @ kind @ resp_reason resp
         @ '' for url: '' @ resp_url resp @ '': '' @ resp_text resp)"
    by (metis append.assoc sublist_appendI)
  moreover have "suffix (resp_text resp)
      (str_int (resp_status_code resp) @ kind @ resp_reason resp
         @ '' for url: '' @ resp_url resp @ '': '' @ resp_text resp)"
    by (metis append.assoc suffixI)
  ultimately show "\<exists>msg. fst (send_and_check c rel_url http_method json_arg params w) = Inl (HTTPError msg) \<and>
               prefix (str_int (resp_status_code resp)) msg \<and>
               sublist (resp_reason resp) msg \<and>
               suffix (resp_text resp) msg"
    by (metis fst_conv prefixI)
next
  assume "\<not> (400 \<le> resp_status_code resp \<and> resp_status_code resp < 600)"
  with send_and_check_returns [OF assms] show
    "fst (send_and_check c rel_url http_method json_arg params w) = Inr resp"
    by simp
qed

theorem send_and_check_status_witness:
  \<open>fst (send_and_check
      \<lparr>config = new_dev,
       oidcc_send_request = fixed_reply
         \<lparr>resp_status_code = 400, resp_reason = ''Bad Request'',
          resp_url = ''https://api.wwtelescope.dev//handle/wwt'',
          resp_text = ''{"error":true,"detail":"bad request"}'', resp_json = None\<rparr>\<rparr>
      ''/handle/wwt'' (Some ''GET'') None None fresh_world) =
    Inl (HTTPError ''400 Client Error: Bad Request for url: https://api.wwtelescope.dev//handle/wwt: {"error":true,"detail":"bad request"}'') \<and>
   fst (send_and_check
      \<lparr>config = new_dev, oidcc_send_request = fixed_reply (ok_response (JDict [(''error'', JBool False)]))\<rparr>
      ''/handle/wwt'' (Some ''GET'') None None fresh_world) =
    Inr (ok_response (JDict [(''error'', JBool False)]))\<close>
  using send_and_check_status [of
      \<open>\<lparr>config = new_dev,
       oidcc_send_request = fixed_reply
         \<lparr>resp_status_code = 400, resp_reason = ''Bad Request'',
          resp_url = ''https://api.wwtelescope.dev//handle/wwt'',
          resp_text = ''{"error":true,"detail":"bad request"}'', resp_json = None\<rparr>\<rparr>\<close>
      fresh_world \<open>''/handle/wwt''\<close> \<open>Some ''GET''\<close> None None]
    send_and_check_status [of
      \<open>\<lparr>config = new_dev,
        oidcc_send_request = fixed_reply (ok_response (JDict [(''error'', JBool False)]))\<rparr>\<close>
      fresh_world \<open>''/handle/wwt''\<close> \<open>Some ''GET''\<close> None None]
  by (simp add: send_and_check_def raise_for_status_def fixed_reply_def request_def new_dev_def
      str_int_def str_nat.simps ok_response_def fresh_world_def)

text \<open>
  The claim as written has every status outside 200 to 299 raise. A 304 response is
  returned to the caller: \<^verbatim>\<open>raise_for_status\<close> raises for 400 to 599 only.
\<close>

theorem send_and_check_not_modified_counterexample:
  "\<not> (200 \<le> (304::int) \<and> (304::int) < 300) \<and>
   fst (send_and_check
      \<lparr>config = new_dev,
       oidcc_send_request = fixed_reply
         \<lparr>resp_status_code = 304, resp_reason = ''Not Modified'',
          resp_url = ''https://api.wwtelescope.dev//handle/wwt'',
          resp_text = [], resp_json = None\<rparr>\<rparr>
      ''/handle/wwt'' (Some ''GET'') None None fresh_world) =
    Inr \<lparr>resp_status_code = 304, resp_reason = ''Not Modified'',
          resp_url = ''https://api.wwtelescope.dev//handle/wwt'',
          resp_text = [], resp_json = None\<rparr>"
  by (simp add: send_and_check_def raise_for_status_def fixed_reply_def fresh_world_def)

subsection \<open>Page arguments\<close>

lemma sent_send_and_check:
  "sent (snd (send_and_check c rel_url http_method json_arg params w)) =
     sent w @ [request c rel_url http_method json_arg params]"
  by (simp add: send_and_check_def Let_def split: prod.splits option.splits)

lemma scene_info_sent:
  assumes "py_int page_num = Inr n" "0 \<le> n" "py_int page_size = Inr m" "1 \<le> m" "m \<le> 100"
  shows "sent (snd (scene_info load self page_num page_size w)) =
     sent w @ [request (client self) (url_base self @ ''/sceneinfo'') (Some ''GET'') None
                 (Some [(''page'', n), (''pagesize'', m)])]"
proof -
  obtain r w' where sc: "send_and_check (client self) (url_base self @ ''/sceneinfo'') (Some ''GET'') None
                 (Some [(''page'', n), (''pagesize'', m)]) w = (r, w')"
    by (cases "send_and_check (client self) (url_base self @ ''/sceneinfo'') (Some ''GET'') None
                 (Some [(''page'', n), (''pagesize'', m)]) w")
  have "snd (scene_info load self page_num page_size w) = w'"
    using assms sc by (simp add: scene_info_def split: sum.splits)
  moreover have "sent w' = sent w @ [request (client self) (url_base self @ ''/sceneinfo'') (Some ''GET'') None
                 (Some [(''page'', n), (''pagesize'', m)])]"
    using sent_send_and_check [of "client self" "url_base self @ ''/sceneinfo''" "Some ''GET''" None
        "Some [(''page'', n), (''pagesize'', m)]" w] sc by simp
  ultimately show ?thesis by simp
qed


lemma scene_info_invalid:
  "page_num < 0 \<or> page_size < 1 \<or> page_size > 100 \<Longrightarrow>
   \<exists>m. scene_info load self (PyInt page_num) (PyInt page_size) w = (Inl (ValueError m), w)"
  by (auto simp: scene_info_def)

lemma get_timeline_invalid:
  "page_num < 0 \<Longrightarrow> \<exists>m. get_timeline load self (PyInt page_num) w = (Inl (ValueError m), w)"
  by (auto simp: get_timeline_def)

text \<open>
  \<^verbatim>\<open>int()\<close> on strings: the no-break space and the next-line character are skipped, the
  separator characters U+001F and U+001C are not, and a string of 4301 digits is refused.
\<close>

lemma py_int_str_examples:
  "py_int (PyStr ''3'') = Inr 3"
  "py_int (PyStr '' 25 '') = Inr 25"
  "py_int (PyStr ''-1_000'') = Inr (- 1000)"
  "py_int (PyStr [CHR 0xA0, CHR ''7'', CHR 0x85]) = Inr 7"
  "py_int (PyStr [CHR 0x1F, CHR ''7'', CHR 0x1C]) =
     Inl (ValueError ''invalid literal for int() with base 10'')"
  "py_int (PyStr ''3.9'') = Inl (ValueError ''invalid literal for int() with base 10'')"
  "py_int (PyStr ''+ 7'') = Inl (ValueError ''invalid literal for int() with base 10'')"
  "py_int (PyStr ''7__7'') = Inl (ValueError ''invalid literal for int() with base 10'')"
  "py_int (PyStr []) = Inl (ValueError ''invalid literal for int() with base 10'')"
  by (simp_all add: int_of_str_def str_strip_def is_space_def nat_of_str_def digit_of_def
      int_max_str_digits_def)

lemma py_int_str_digit_limit:
  "py_int (PyStr (CHR ''1'' # replicate 4300 (CHR ''1''))) =
     Inl (ValueError ''invalid literal for int() with base 10'')"
  by (simp add: int_of_str_def str_strip_def is_space_def nat_of_str_def digit_of_def
      int_max_str_digits_def)

text \<open>
  A page argument that \<^verbatim>\<open>int()\<close> refuses raises \<^verbatim>\<open>ValueError\<close>, and nothing is sent.
\<close>

lemma separators_not_coerced:
  "scene_info load self (PyStr [CHR 0x1F, CHR ''7'', CHR 0x1C]) (PyInt 10) w =
     (Inl (ValueError ''invalid page_num argument''), w)"
  "get_timeline load_timeline self (PyStr [CHR 0x1F, CHR ''7'', CHR 0x1C]) w =
     (Inl (ValueError ''invalid page_num argument''), w)"
  by (simp_all add: scene_info_def get_timeline_def py_int_str_examples del: py_int.simps)

text \<open>
  C4. For integer arguments: \<^verbatim>\<open>scene_info\<close> raises \<^verbatim>\<open>ValueError\<close> and leaves the world as it
  was (nothing is sent) when \<^verbatim>\<open>page_num\<close> is negative or \<^verbatim>\<open>page_size\<close> is outside 1 to 100;
  otherwise it issues the \<^verbatim>\<open>sceneinfo\<close> request with these two numbers; and
  \<^verbatim>\<open>get_timeline\<close> raises \<^verbatim>\<open>ValueError\<close>, nothing sent, for a negative \<^verbatim>\<open>page_num\<close>.
\<close>

theorem page_validation:
  "(page_num < 0 \<or> page_size < 1 \<or> page_size > 100 \<longrightarrow>
      (\<exists>m. scene_info load self (PyInt page_num) (PyInt page_size) w = (Inl (ValueError m), w))) \<and>
   (0 \<le> page_num \<and> 1 \<le> page_size \<and> page_size \<le> 100 \<longrightarrow>
      sent (snd (scene_info load self (PyInt page_num) (PyInt page_size) w)) =
        sent w @ [request (client self) (url_base self @ ''/sceneinfo'') (Some ''GET'') None
                    (Some [(''page'', page_num), (''pagesize'', page_size)])]) \<and>
   (page_num < 0 \<longrightarrow>
      (\<exists>m. get_timeline load_timeline self (PyInt page_num) w = (Inl (ValueError m), w)))"
  using scene_info_invalid [of page_num page_size load self w]
    scene_info_sent [of "PyInt page_num" page_num "PyInt page_size" page_size load self w]
    get_timeline_invalid [of page_num load_timeline self w]
  by simp

theorem page_validation_witness:
  "scene_info reject (local_handle_client (ok_response (JDict []))) (PyInt (- 1)) (PyInt 10) fresh_world =
     (Inl (ValueError ''invalid page_num argument''), fresh_world) \<and>
   scene_info reject (local_handle_client (ok_response (JDict []))) (PyInt 0) (PyInt 101) fresh_world =
     (Inl (ValueError ''invalid page_size argument''), fresh_world) \<and>
   sent (snd (scene_info reject (local_handle_client (ok_response (JDict []))) (PyInt 0) (PyInt 100)
                fresh_world)) =
     [\<lparr>req_url = ''http://localhost:7000/handle/wwt/sceneinfo'', req_new_token = True,
       req_scopes = [''profile'', ''offline_access''], req_http_method = Some ''GET'',
       req_json = None, req_params = Some [(''page'', 0), (''pagesize'', 100)]\<rparr>] \<and>
   get_timeline reject (local_handle_client (ok_response (JDict []))) (PyInt (- 1)) fresh_world =
     (Inl (ValueError ''invalid page_num argument''), fresh_world)"
  using page_validation [of "- 1" 10 reject "local_handle_client (ok_response (JDict []))" fresh_world reject]
    page_validation [of 0 101 reject "local_handle_client (ok_response (JDict []))" fresh_world reject]
    page_validation [of 0 100 reject "local_handle_client (ok_response (JDict []))" fresh_world reject]
  by (simp add: scene_info_def get_timeline_def request_def local_handle_client_def fresh_world_def)



subsection \<open>The response envelope\<close>

lemma map_of_dict_del: "map_of (dict_del k d) k = None"
  by (induction d) (auto simp: dict_del_def)

lemma send_and_check_success:
  assumes "success_with c w (request c rel_url http_method json_arg params) d"
  shows "\<exists>resp w'. send_and_check c rel_url http_method json_arg params w = (Inr resp, w') \<and>
           json_pop_error resp = pop_error_of d"
  using assms
  by (auto simp: success_with_def send_and_check_def json_pop_error_def pop_error_of_def Let_def
      split: prod.splits)

lemma get_envelope:
  assumes "success_with (client self) w (request (client self) (url_base self) (Some ''GET'') None None) d"
  shows "fst (get load self w) =
     (if map_of d ''error'' = None then Inl (KeyError ''error'')
      else load (JDict (dict_del ''error'' d)))"
  using send_and_check_success [OF assms]
  by (auto simp: get_def pop_error_of_def)

lemma permissions_envelope:
  assumes "success_with (client self) w
     (request (client self) (url_base self @ ''/permissions'') (Some ''GET'') None None) d"
  shows "fst (permissions load self w) =
     (if map_of d ''error'' = None then Inl (KeyError ''error'')
      else load (JDict (dict_del ''error'' d)))"
  using send_and_check_success [OF assms]
  by (auto simp: permissions_def pop_error_of_def)

lemma stats_envelope:
  assumes "success_with (client self) w
     (request (client self) (url_base self @ ''/stats'') (Some ''GET'') None None) d"
  shows "fst (stats load self w) =
     (if map_of d ''error'' = None then Inl (KeyError ''error'')
      else load (JDict (dict_del ''error'' d)))"
  using send_and_check_success [OF assms]
  by (auto simp: stats_def pop_error_of_def)

lemma scene_info_envelope:
  assumes "py_int page_num = Inr n" "0 \<le> n" "py_int page_size = Inr m" "1 \<le> m" "m \<le> 100"
    and "success_with (client self) w
     (request (client self) (url_base self @ ''/sceneinfo'') (Some ''GET'') None
        (Some [(''page'', n), (''pagesize'', m)])) d"
  shows "fst (scene_info load self page_num page_size w) =
     (if map_of d ''error'' = None then Inl (KeyError ''error'')
      else map_sum (\<lambda>e. e) sir_results (load (JDict (dict_del ''error'' d))))"
  using send_and_check_success [OF assms(6)] assms(1-5)
  by (auto simp: scene_info_def pop_error_of_def)

lemma update_envelope:
  assumes "success_with (client self) w
     (request (client self) (url_base self) (Some ''PATCH'')
        (Some (JDict (strip_nulls_in_place (HandleUpdate_to_dict updates)))) None) d"
  shows "fst (update self updates w) =
     (if map_of d ''error'' = None then Inl (KeyError ''error'')
      else Inr (JDict (dict_del ''error'' d)))"
  using send_and_check_success [OF assms]
  by (auto simp: update_def pop_error_of_def)

lemma add_image_envelope:
  assumes "success_with (client self) w
     (request (client self) (url_base self @ ''/image'') (Some ''POST'')
        (Some (JDict (strip_nulls_in_place (AddImageRequest_to_dict image_arg)))) None) d"
  shows "fst (add_image load self image_arg w) =
     (if map_of d ''error'' = None then Inl (KeyError ''error'')
      else map_sum (\<lambda>e. e) aip_id (load (JDict (dict_del ''error'' d))))"
  using send_and_check_success [OF assms]
  by (auto simp: add_image_def pop_error_of_def)

lemma add_scene_envelope:
  assumes "success_with (client self) w
     (request (client self) (url_base self @ ''/scene'') (Some ''POST'')
        (Some (JDict (strip_nulls_in_place (AddSceneRequest_to_dict scene)))) None) d"
  shows "fst (add_scene load self scene w) =
     (if map_of d ''error'' = None then Inl (KeyError ''error'')
      else map_sum (\<lambda>e. e) asp_id (load (JDict (dict_del ''error'' d))))"
  using send_and_check_success [OF assms]
  by (auto simp: add_scene_def pop_error_of_def)

lemma get_timeline_envelope:
  assumes "py_int page_num = Inr n" "0 \<le> n"
    and "success_with (client self) w
     (request (client self) (url_base self @ ''/timeline'') (Some ''GET'') None
        (Some [(''page'', n)])) d"
  shows "fst (get_timeline load self page_num w) =
     (if map_of d ''error'' = None then Inl (KeyError ''error'')
      else map_sum (\<lambda>e. e) tr_results (load (JDict (dict_del ''error'' d))))"
  using send_and_check_success [OF assms(3)] assms(1-2)
  by (auto simp: get_timeline_def pop_error_of_def)

text \<open>
  C9. In each of the eight operations, after an exchange that succeeds with the JSON
  object \<open>d\<close> as its body: when \<open>d\<close> has no \<^verbatim>\<open>error\<close> key the operation raises
  \<^verbatim>\<open>KeyError\<close>; otherwise the payload is decoded from \<open>d\<close> without its \<^verbatim>\<open>error\<close> key
  (\<^verbatim>\<open>update\<close> returns that dictionary itself), and that dictionary has no \<^verbatim>\<open>error\<close> key.
\<close>

theorem handle_operations_pop_error:
  "(success_with (client self) w
       (request (client self) (url_base self) (Some ''GET'') None None) d \<longrightarrow>
      fst (get load_info self w) =
        (if map_of d ''error'' = None then Inl (KeyError ''error'')
         else load_info (JDict (dict_del ''error'' d)))) \<and>
   (success_with (client self) w
       (request (client self) (url_base self @ ''/permissions'') (Some ''GET'') None None) d \<longrightarrow>
      fst (permissions load_permissions self w) =
        (if map_of d ''error'' = None then Inl (KeyError ''error'')
         else load_permissions (JDict (dict_del ''error'' d)))) \<and>
   (success_with (client self) w
       (request (client self) (url_base self @ ''/stats'') (Some ''GET'') None None) d \<longrightarrow>
      fst (stats load_stats self w) =
        (if map_of d ''error'' = None then Inl (KeyError ''error'')
         else load_stats (JDict (dict_del ''error'' d)))) \<and>
   (py_int page_num = Inr n \<and> 0 \<le> n \<and> py_int page_size = Inr m \<and> 1 \<le> m \<and> m \<le> 100 \<and>
    success_with (client self) w
       (request (client self) (url_base self @ ''/sceneinfo'') (Some ''GET'') None
          (Some [(''page'', n), (''pagesize'', m)])) d \<longrightarrow>
      fst (scene_info load_scene_info self page_num page_size w) =
        (if map_of d ''error'' = None then Inl (KeyError ''error'')
         else map_sum (\<lambda>e. e) sir_results (load_scene_info (JDict (dict_del ''error'' d))))) \<and>
   (success_with (client self) w
       (request (client self) (url_base self) (Some ''PATCH'')
          (Some (JDict (strip_nulls_in_place (HandleUpdate_to_dict updates)))) None) d \<longrightarrow>
      fst (update self updates w) =
        (if map_of d ''error'' = None then Inl (KeyError ''error'')
         else Inr (JDict (dict_del ''error'' d)))) \<and>
   (success_with (client self) w
       (request (client self) (url_base self @ ''/image'') (Some ''POST'')
          (Some (JDict (strip_nulls_in_place (AddImageRequest_to_dict image_arg)))) None) d \<longrightarrow>
      fst (add_image load_add_image self image_arg w) =
        (if map_of d ''error'' = None then Inl (KeyError ''error'')
         else map_sum (\<lambda>e. e) aip_id (load_add_image (JDict (dict_del ''error'' d))))) \<and>
   (success_with (client self) w
       (request (client self) (url_base self @ ''/scene'') (Some ''POST'')
          (Some (JDict (strip_nulls_in_place (AddSceneRequest_to_dict scene)))) None) d \<longrightarrow>
      fst (add_scene load_add_scene self scene w) =
        (if map_of d ''error'' = None then Inl (KeyError ''error'')
         else map_sum (\<lambda>e. e) asp_id (load_add_scene (JDict (dict_del ''error'' d))))) \<and>
   (py_int page_num = Inr n \<and> 0 \<le> n \<and>
    success_with (client self) w
       (request (client self) (url_base self @ ''/timeline'') (Some ''GET'') None
          (Some [(''page'', n)])) d \<longrightarrow>
      fst (get_timeline load_timeline self page_num w) =
        (if map_of d ''error'' = None then Inl (KeyError ''error'')
         else map_sum (\<lambda>e. e) tr_results (load_timeline (JDict (dict_del ''error'' d))))) \<and>
   map_of (dict_del ''error'' d) ''error'' = None"
proof (intro conjI impI)
  show "map_of (dict_del ''error'' d) ''error'' = None"
    by (rule map_of_dict_del)
qed (simp_all only: get_envelope permissions_envelope stats_envelope scene_info_envelope
    update_envelope add_image_envelope add_scene_envelope get_timeline_envelope)

text \<open>
  A success response with \<^verbatim>\<open>{"error": false, "handle": "wwt", "display_name": "WWT"}\<close> is
  decoded; the same response without the \<^verbatim>\<open>error\<close> key makes \<^verbatim>\<open>get\<close> raise \<^verbatim>\<open>KeyError\<close>.
\<close>

theorem handle_operations_pop_error_witness:
  "fst (get load_HandleInfo
          (local_handle_client (ok_response (JDict
             [(''error'', JBool False), (''handle'', JStr ''wwt''), (''display_name'', JStr ''WWT'')])))
          fresh_world) =
     Inr \<lparr>hi_handle = ''wwt'', hi_display_name = ''WWT''\<rparr> \<and>
   fst (get load_HandleInfo
          (local_handle_client (ok_response (JDict
             [(''handle'', JStr ''wwt''), (''display_name'', JStr ''WWT'')])))
          fresh_world) =
     Inl (KeyError ''error'')"
proof -
  have ok: "success_with (client (local_handle_client (ok_response (JDict d)))) fresh_world req d"
    for d req
    by (simp add: success_with_def local_handle_client_def fixed_reply_def ok_response_def
        raise_for_status_def)
  show ?thesis
    using handle_operations_pop_error [of
        "local_handle_client (ok_response (JDict
             [(''error'', JBool False), (''handle'', JStr ''wwt''), (''display_name'', JStr ''WWT'')]))"
        fresh_world
        "[(''error'', JBool False), (''handle'', JStr ''wwt''), (''display_name'', JStr ''WWT'')]"
        load_HandleInfo, THEN conjunct1]
      handle_operations_pop_error [of
        "local_handle_client (ok_response (JDict
             [(''handle'', JStr ''wwt''), (''display_name'', JStr ''WWT'')]))"
        fresh_world
        "[(''handle'', JStr ''wwt''), (''display_name'', JStr ''WWT'')]"
        load_HandleInfo, THEN conjunct1]
    by (simp add: ok load_HandleInfo_def dict_del_def)
qed

subsection \<open>The adapters\<close>

lemma sent_add_image:
  "sent (snd (add_image load self image_arg w)) =
     sent w @ [request (client self) (url_base self @ ''/image'') (Some ''POST'')
        (Some (JDict (strip_nulls_in_place (AddImageRequest_to_dict image_arg)))) None]"
proof -
  obtain r w' where sc: "send_and_check (client self) (url_base self @ ''/image'') (Some ''POST'')
        (Some (JDict (strip_nulls_in_place (AddImageRequest_to_dict image_arg)))) None w = (r, w')"
    by (cases "send_and_check (client self) (url_base self @ ''/image'') (Some ''POST'')
        (Some (JDict (strip_nulls_in_place (AddImageRequest_to_dict image_arg)))) None w")
  have "snd (add_image load self image_arg w) = w'"
    using sc by (simp add: add_image_def split: sum.splits)
  with sent_send_and_check [of "client self" "url_base self @ ''/image''" "Some ''POST''"
        "Some (JDict (strip_nulls_in_place (AddImageRequest_to_dict image_arg)))" None w] sc
  show ?thesis by simp
qed

lemma strip_AddImageRequest:
  "strip_nulls_in_place (AddImageRequest_to_dict
      \<lparr>air_wwt = x, air_storage = \<lparr>st_legacy_url_template = Some u\<rparr>, air_note = n\<rparr>) =
   [(''wwt'', JDict (ImageWwt_to_dict x)),
    (''storage'', JDict [(''legacy_url_template'', JStr u)]),
    (''note'', JStr n)]"
  by (simp add: strip_nulls_in_place.simps AddImageRequest_to_dict_def ImageWwt_to_dict_def
      ImageStorage_to_dict_def opt_str_def)

lemma add_image_from_set_rejects:
  "iset_data_set_type imageset \<noteq> SKY \<or> iset_base_tile_level imageset \<noteq> 0 \<Longrightarrow>
   \<exists>m. add_image_from_set load self imageset w = (Inl (ValueError m), w)"
  by (auto simp: add_image_from_set_def)

lemma add_image_from_set_sends:
  assumes "iset_data_set_type imageset = SKY" and "iset_base_tile_level imageset = 0"
  shows "sent (snd (add_image_from_set load self imageset w)) =
     sent w @ [request (client self) (url_base self @ ''/image'') (Some ''POST'')
       (Some (JDict
          [(''wwt'', JDict
             [(''base_degrees_per_tile'', JFloat (iset_base_degrees_per_tile imageset)),
              (''bottoms_up'', JBool (iset_bottoms_up imageset)),
              (''center_x'', JFloat (iset_center_x imageset)),
              (''center_y'', JFloat (iset_center_y imageset)),
              (''file_type'', JStr (iset_file_type imageset)),
              (''offset_x'', JFloat (iset_offset_x imageset)),
              (''offset_y'', JFloat (iset_offset_y imageset)),
              (''projection'', JStr (projection_value (iset_projection imageset))),
              (''quad_tree_map'',
                 JStr (case iset_quad_tree_map imageset of None \<Rightarrow> [] | Some q \<Rightarrow> q)),
              (''rotation'', JFloat (iset_rotation_deg imageset)),
              (''tile_levels'', JInt (iset_tile_levels imageset)),
              (''width_factor'', JInt (iset_width_factor imageset)),
              (''thumbnail_url'', JStr (iset_thumbnail_url imageset))]),
           (''storage'', JDict [(''legacy_url_template'', JStr (iset_url imageset))]),
           (''note'', JStr (iset_name imageset))])) None]"
  using assms
  by (simp add: add_image_from_set_def Let_def sent_add_image strip_AddImageRequest ImageWwt_to_dict_def)

text \<open>
  C7. An image set that is not of Sky type, or whose base tile level is not 0, makes
  \<^verbatim>\<open>add_image_from_set\<close> raise \<^verbatim>\<open>ValueError\<close> with the world as it was (nothing is sent). For
  a Sky image set of base tile level 0 it issues the \<^verbatim>\<open>POST\<close> to \<^verbatim>\<open>/image\<close> whose body carries
  the tiling and geometry attributes of the image set as they are (the projection by its
  value, an absent quad-tree map as the empty string), its URL as
  \<^verbatim>\<open>legacy_url_template\<close> and its name as the note.
\<close>

theorem add_image_from_set_spec:
  "(iset_data_set_type imageset \<noteq> SKY \<or> iset_base_tile_level imageset \<noteq> 0 \<longrightarrow>
      (\<exists>m. add_image_from_set load self imageset w = (Inl (ValueError m), w))) \<and>
   (iset_data_set_type imageset = SKY \<and> iset_base_tile_level imageset = 0 \<longrightarrow>
      sent (snd (add_image_from_set load self imageset w)) =
      sent w @ [request (client self) (url_base self @ ''/image'') (Some ''POST'')
       (Some (JDict
          [(''wwt'', JDict
             [(''base_degrees_per_tile'', JFloat (iset_base_degrees_per_tile imageset)),
              (''bottoms_up'', JBool (iset_bottoms_up imageset)),
              (''center_x'', JFloat (iset_center_x imageset)),
              (''center_y'', JFloat (iset_center_y imageset)),
              (''file_type'', JStr (iset_file_type imageset)),
              (''offset_x'', JFloat (iset_offset_x imageset)),
              (''offset_y'', JFloat (iset_offset_y imageset)),
              (''projection'', JStr (projection_value (iset_projection imageset))),
              (''quad_tree_map'',
                 JStr (case iset_quad_tree_map imageset of None \<Rightarrow> [] | Some q \<Rightarrow> q)),
              (''rotation'', JFloat (iset_rotation_deg imageset)),
              (''tile_levels'', JInt (iset_tile_levels imageset)),
              (''width_factor'', JInt (iset_width_factor imageset)),
              (''thumbnail_url'', JStr (iset_thumbnail_url imageset))]),
           (''storage'', JDict [(''legacy_url_template'', JStr (iset_url imageset))]),
           (''note'', JStr (iset_name imageset))])) None])"
  using add_image_from_set_rejects [of imageset load self w]
    add_image_from_set_sends [of imageset load self w]
  by blast

theorem add_image_from_set_spec_witness:
  "add_image_from_set reject (local_handle_client (ok_response (JDict [])))
     \<lparr>iset_data_set_type = PLANET, iset_base_tile_level = 0, iset_base_degrees_per_tile = 180,
      iset_bottoms_up = False, iset_center_x = 0, iset_center_y = 0, iset_file_type = ''.png'',
      iset_offset_x = 0, iset_offset_y = 0, iset_projection = ProjectionType ''Toast'',
      iset_quad_tree_map = Some ''0'', iset_rotation_deg = 0, iset_tile_levels = 4,
      iset_width_factor = 2, iset_thumbnail_url = ''http://example.org/thumb.jpg'',
      iset_url = ''http://example.org/{1}/{3}/{3}_{2}.png'', iset_name = ''Mars''\<rparr> fresh_world =
     (Inl (ValueError ''Constellations imagesets must be of Sky type''), fresh_world) \<and>
   add_image_from_set reject (local_handle_client (ok_response (JDict [])))
     \<lparr>iset_data_set_type = SKY, iset_base_tile_level = 1, iset_base_degrees_per_tile = 180,
      iset_bottoms_up = False, iset_center_x = 0, iset_center_y = 0, iset_file_type = ''.png'',
      iset_offset_x = 0, iset_offset_y = 0, iset_projection = ProjectionType ''Toast'',
      iset_quad_tree_map = Some ''0'', iset_rotation_deg = 0, iset_tile_levels = 4,
      iset_width_factor = 2, iset_thumbnail_url = ''http://example.org/thumb.jpg'',
      iset_url = ''http://example.org/{1}/{3}/{3}_{2}.png'', iset_name = ''DSS''\<rparr> fresh_world =
     (Inl (ValueError ''Constellations imagesets must have base tile levels of 0''), fresh_world) \<and>
   sent (snd (add_image_from_set reject (local_handle_client (ok_response (JDict [])))
     \<lparr>iset_data_set_type = SKY, iset_base_tile_level = 0, iset_base_degrees_per_tile = 180,
      iset_bottoms_up = False, iset_center_x = 0, iset_center_y = 0, iset_file_type = ''.png'',
      iset_offset_x = 0, iset_offset_y = 0, iset_projection = ProjectionType ''Toast'',
      iset_quad_tree_map = None, iset_rotation_deg = 0, iset_tile_levels = 4,
      iset_width_factor = 2, iset_thumbnail_url = ''http://example.org/thumb.jpg'',
      iset_url = ''http://example.org/{1}/{3}/{3}_{2}.png'', iset_name = ''DSS''\<rparr> fresh_world)) =
     [\<lparr>req_url = ''http://localhost:7000/handle/wwt/image'', req_new_token = True,
       req_scopes = [''profile'', ''offline_access''], req_http_method = Some ''POST'',
       req_json = Some (JDict
          [(''wwt'', JDict
             [(''base_degrees_per_tile'', JFloat 180),
              (''bottoms_up'', JBool False),
              (''center_x'', JFloat 0),
              (''center_y'', JFloat 0),
              (''file_type'', JStr ''.png''),
              (''offset_x'', JFloat 0),
              (''offset_y'', JFloat 0),
              (''projection'', JStr ''Toast''),
              (''quad_tree_map'', JStr []),
              (''rotation'', JFloat 0),
              (''tile_levels'', JInt 4),
              (''width_factor'', JInt 2),
              (''thumbnail_url'', JStr ''http://example.org/thumb.jpg'')]),
           (''storage'', JDict [(''legacy_url_template'', JStr ''http://example.org/{1}/{3}/{3}_{2}.png'')]),
           (''note'', JStr ''DSS'')]),
       req_params = None\<rparr>]"
  using add_image_from_set_spec [of
     "\<lparr>iset_data_set_type = PLANET, iset_base_tile_level = 0, iset_base_degrees_per_tile = 180,
      iset_bottoms_up = False, iset_center_x = 0, iset_center_y = 0, iset_file_type = ''.png'',
      iset_offset_x = 0, iset_offset_y = 0, iset_projection = ProjectionType ''Toast'',
      iset_quad_tree_map = Some ''0'', iset_rotation_deg = 0, iset_tile_levels = 4,
      iset_width_factor = 2, iset_thumbnail_url = ''http://example.org/thumb.jpg'',
      iset_url = ''http://example.org/{1}/{3}/{3}_{2}.png'', iset_name = ''Mars''\<rparr>"
     reject "local_handle_client (ok_response (JDict []))" fresh_world]
   add_image_from_set_spec [of
     "\<lparr>iset_data_set_type = SKY, iset_base_tile_level = 1, iset_base_degrees_per_tile = 180,
      iset_bottoms_up = False, iset_center_x = 0, iset_center_y = 0, iset_file_type = ''.png'',
      iset_offset_x = 0, iset_offset_y = 0, iset_projection = ProjectionType ''Toast'',
      iset_quad_tree_map = Some ''0'', iset_rotation_deg = 0, iset_tile_levels = 4,
      iset_width_factor = 2, iset_thumbnail_url = ''http://example.org/thumb.jpg'',
      iset_url = ''http://example.org/{1}/{3}/{3}_{2}.png'', iset_name = ''DSS''\<rparr>"
     reject "local_handle_client (ok_response (JDict []))" fresh_world]
   add_image_from_set_spec [of
     "\<lparr>iset_data_set_type = SKY, iset_base_tile_level = 0, iset_base_degrees_per_tile = 180,
      iset_bottoms_up = False, iset_center_x = 0, iset_center_y = 0, iset_file_type = ''.png'',
      iset_offset_x = 0, iset_offset_y = 0, iset_projection = ProjectionType ''Toast'',
      iset_quad_tree_map = None, iset_rotation_deg = 0, iset_tile_levels = 4,
      iset_width_factor = 2, iset_thumbnail_url = ''http://example.org/thumb.jpg'',
      iset_url = ''http://example.org/{1}/{3}/{3}_{2}.png'', iset_name = ''DSS''\<rparr>"
     reject "local_handle_client (ok_response (JDict []))" fresh_world]
  by (simp add: add_image_from_set_def request_def local_handle_client_def fresh_world_def)

lemma ScenePlace_init_zoom_deg:
  "ScenePlace_init [(''ra_rad'', ra), (''dec_rad'', dec), (''zoom_deg'', zoom), (''roll_rad'', roll)] =
     Inl (TypeError ''__init__() got an unexpected keyword argument zoom_deg'')"
  by (simp add: ScenePlace_init_def)

text \<open>
  C3. \<^verbatim>\<open>add_scene_from_place\<close> calls the constructor of \<^verbatim>\<open>ScenePlace\<close> with the keyword
  \<^verbatim>\<open>zoom_deg\<close>, which is not a field of the class: once the lookups have succeeded the
  operation raises \<^verbatim>\<open>TypeError\<close>, and no scene request is built or sent. A place with no
  image set, \<^verbatim>\<open>ra_hr = 12\<close> and \<^verbatim>\<open>dec_deg = 45\<close> raises it with nothing sent at all.
\<close>

theorem add_scene_from_place_TypeError:
  "add_scene_from_place load_find load self place w =
     (case lookup_layers load_find (client self)
             [pl_background_image_set place, pl_image_set place, pl_foreground_image_set place]
             [] w of
        (Inl e, w') \<Rightarrow> (Inl e, w')
      | (Inr image_layers, w') \<Rightarrow>
          (Inl (TypeError ''__init__() got an unexpected keyword argument zoom_deg''), w')) \<and>
   add_scene_from_place load_find load self
     \<lparr>pl_background_image_set = None, pl_image_set = None, pl_foreground_image_set = None,
      pl_ra_hr = 12, pl_dec_deg = 45, pl_zoom_level = 60, pl_rotation_deg = 0,
      pl_name = ''M31''\<rparr> w =
     (Inl (TypeError ''__init__() got an unexpected keyword argument zoom_deg''), w)"
  by (simp add: add_scene_from_place_def ScenePlace_init_zoom_deg split: prod.splits sum.splits)

end
